theory Spec2Isabelle
  imports Main "HOL-Library.Sublist"
begin

section \<open>Python values\<close>

text \<open>
  A Python \<^verbatim>\<open>str\<close> is a sequence of Unicode code points. The prompts and keywords of
  \<^verbatim>\<open>main.py\<close> are Korean text, so a string is modelled as the list of its code points;
  \<open>ascii\<close> reads an ASCII literal as such a list.
\<close>

type_synonym pystr = "nat list"

definition ascii :: "string \<Rightarrow> pystr" where
  "ascii = map of_char"

text \<open>
  Python's \<^verbatim>\<open>key in text\<close> on strings: \<^verbatim>\<open>key\<close> occurs in \<^verbatim>\<open>text\<close> at some
  position, compared code point by code point (no case folding, no normalisation).
\<close>

fun str_in :: "pystr \<Rightarrow> pystr \<Rightarrow> bool" where
  "str_in key [] = (key = [])"
| "str_in key (c # cs) = (prefix key (c # cs) \<or> str_in key cs)"

text \<open>
  A value that is a \<^verbatim>\<open>str\<close> or \<^verbatim>\<open>None\<close> is a \<open>pystr option\<close>. An f-string field
  \<^verbatim>\<open>{v}\<close> formats a \<^verbatim>\<open>str\<close> as itself and \<^verbatim>\<open>None\<close> as the four letters
  \<^verbatim>\<open>None\<close>.
\<close>

definition format_value :: "pystr option \<Rightarrow> pystr" where
  "format_value v = (case v of None \<Rightarrow> ascii ''None'' | Some t \<Rightarrow> t)"

section \<open>Constants (lines 35--52)\<close>

text \<open>
  \<^verbatim>\<open>ModeType = Literal["A", "B", "C", "D"]\<close>: the closed set of the four mode values.
  \<open>ModeType_validate\<close> is the check that pydantic makes for a field of this type: the
  input must be equal to one of the four literals, and nothing else is accepted.
\<close>

datatype ModeType = A | B | C | D

definition ModeType_validate :: "pystr \<Rightarrow> ModeType option" where
  "ModeType_validate m =
     (if m = ascii ''A'' then Some A
      else if m = ascii ''B'' then Some B
      else if m = ascii ''C'' then Some C
      else if m = ascii ''D'' then Some D
      else None)"

text \<open>
  \<^verbatim>\<open>REPORT_KEYWORDS\<close>, lines 44--52: seven Korean keyword variants of "report" and
  "write (it) up", in the order of the source.
\<close>

definition REPORT_KEYWORDS :: "pystr list" where
  "REPORT_KEYWORDS = [
    [0xBCF4, 0xACE0, 0xC11C],
    [0xBCF4, 0xACE0, 0x20, 0xC11C],
    [0xBCF4, 0xACE0, 0xC11C, 0xB97C],
    [0xBCF4, 0xACE0, 0xC11C, 0xB85C],
    [0xC791, 0xC131, 0xD574],
    [0xC791, 0xC131, 0xD574, 0xC918],
    [0xC791, 0xC131, 0xD574, 0x20, 0xC918]]"

section \<open>Provider calls (lines 59--65 and 271--322)\<close>

text \<open>
  What lies outside the program is a parameter of the model:
  \<^item> the four provider clients. \<^verbatim>\<open>call_gpt\<close> and \<^verbatim>\<open>call_perplexity\<close> return
    \<^verbatim>\<open>message.content\<close> and \<^verbatim>\<open>call_gemini\<close> returns \<^verbatim>\<open>resp.text\<close> as they come
    (lines 284, 295, 322), so each of these three clients answers with a text, with
    \<^verbatim>\<open>None\<close>, or raises. \<^verbatim>\<open>call_claude\<close> joins the text blocks of the message
    (line 310), so what it returns is always a text; the Claude client is taken to give that
    joined text, or to raise;
  \<^item> the text \<^verbatim>\<open>str(e)\<close> of the validation error that pydantic raises when a
    \<^verbatim>\<open>ChatResponse\<close> is built with an answer that is not a \<^verbatim>\<open>str\<close> (line 682).

  A raised exception is kept as the text \<^verbatim>\<open>str(e)\<close> that the handler of \<^verbatim>\<open>chat\<close>
  formats.
\<close>

datatype py_exception = Exception (describe: pystr)

record providers =
  openai_client :: "pystr \<Rightarrow> py_exception + pystr option"
  gemini_client :: "pystr \<Rightarrow> py_exception + pystr option"
  anthropic_client :: "pystr \<Rightarrow> py_exception + pystr"
  perplexity_client :: "pystr \<Rightarrow> py_exception + pystr option"
  response_error_text :: pystr

datatype provider = GPT | Gemini | Claude | Perplexity

text \<open>
  The mutable state: the global \<^verbatim>\<open>last_plan_for_a\<close> (line 65, \<^verbatim>\<open>None\<close> at start) and
  the record of the provider calls made so far, each with its prompt, in the order made.
\<close>

record state =
  last_plan_for_a :: "pystr option"
  calls :: "(provider \<times> pystr) list"

type_synonym 'a io = "state \<Rightarrow> (py_exception + 'a) \<times> state"

text \<open>Sequencing of statements: an exception skips the rest of the function body.\<close>

definition py_return :: "'a \<Rightarrow> 'a io" where
  "py_return x s = (Inr x, s)"

definition py_bind :: "'a io \<Rightarrow> ('a \<Rightarrow> 'b io) \<Rightarrow> 'b io" where
  "py_bind m f s = (case m s of (Inl e, s') \<Rightarrow> (Inl e, s') | (Inr x, s') \<Rightarrow> f x s')"

definition call_gpt :: "providers \<Rightarrow> pystr \<Rightarrow> pystr option io" where
  "call_gpt P prompt s = (openai_client P prompt, s\<lparr>calls := calls s @ [(GPT, prompt)]\<rparr>)"

definition call_gemini :: "providers \<Rightarrow> pystr \<Rightarrow> pystr option io" where
  "call_gemini P prompt s = (gemini_client P prompt, s\<lparr>calls := calls s @ [(Gemini, prompt)]\<rparr>)"

definition call_claude :: "providers \<Rightarrow> pystr \<Rightarrow> pystr option io" where
  "call_claude P prompt s =
     (case anthropic_client P prompt of
        Inl e \<Rightarrow> Inl e
      | Inr joined \<Rightarrow> Inr (Some joined),
      s\<lparr>calls := calls s @ [(Claude, prompt)]\<rparr>)"

definition call_perplexity :: "providers \<Rightarrow> pystr \<Rightarrow> pystr option io" where
  "call_perplexity P prompt s =
     (perplexity_client P prompt, s\<lparr>calls := calls s @ [(Perplexity, prompt)]\<rparr>)"

section \<open>Helper (lines 329--334)\<close>

text \<open>\<^verbatim>\<open>any(keyword in text for keyword in REPORT_KEYWORDS)\<close>\<close>

definition is_report_request :: "pystr \<Rightarrow> bool" where
  "is_report_request text = list_ex (\<lambda>keyword. str_in keyword text) REPORT_KEYWORDS"

section \<open>Prompt templates (the f-strings of lines 348--628 and 689)\<close>

text \<open>
  Lines 348--354 (\<^verbatim>\<open>handle_mode_a_plan\<close>): the prompt whose answer is bound to \<^verbatim>\<open>bg\<close>.
\<close>

definition plan_bg_prompt_lit0 :: pystr where
  "plan_bg_prompt_lit0 = [
    0x0A, 0xACE0, 0xB4F1, 0xD559, 0xC0DD, 0x20, 0xC218, 0xC900, 0xC5D0, 0xC11C, 0x20, 0xC774,
    0xD574, 0xD560, 0x20, 0xC218, 0x20, 0xC788, 0xAC8C, 0x2C, 0x20, 0xC544, 0xB798, 0x20,
    0xD0D0, 0xAD6C, 0x20, 0xC8FC, 0xC81C, 0xC758, 0x20, 0xBC30, 0xACBD, 0xC9C0, 0xC2DD, 0xC744,
    0x20, 0xC815, 0xB9AC, 0xD574, 0xC918, 0x2E, 0x0A, 0x0A, 0xD0D0, 0xAD6C, 0x20, 0xC8FC,
    0xC81C, 0x3A, 0x20]"

definition plan_bg_prompt_lit1 :: pystr where
  "plan_bg_prompt_lit1 = [
    0x0A]"

definition plan_bg_prompt :: "pystr \<Rightarrow> pystr" where
  "plan_bg_prompt user_input = plan_bg_prompt_lit0 @ user_input @ plan_bg_prompt_lit1"

text \<open>
  Lines 357--372 (\<^verbatim>\<open>handle_mode_a_plan\<close>): the prompt whose answer is bound to \<^verbatim>\<open>ideas\<close>.
\<close>

definition plan_ideas_prompt_lit0 :: pystr where
  "plan_ideas_prompt_lit0 = [
    0x0A, 0x5B, 0xD0D0, 0xAD6C, 0x20, 0xC8FC, 0xC81C, 0x5D, 0x0A]"

definition plan_ideas_prompt_lit1 :: pystr where
  "plan_ideas_prompt_lit1 = [
    0x0A, 0x0A, 0x5B, 0xBC30, 0xACBD, 0xC9C0, 0xC2DD, 0x5D, 0x0A]"

definition plan_ideas_prompt_lit2 :: pystr where
  "plan_ideas_prompt_lit2 = [
    0x0A, 0x0A, 0xC704, 0x20, 0xC815, 0xBCF4, 0xB97C, 0x20, 0xBC14, 0xD0D5, 0xC73C, 0xB85C,
    0x2C, 0x20, 0xACE0, 0xB4F1, 0xD559, 0xC0DD, 0x20, 0xC218, 0xD589, 0xD3C9, 0xAC00, 0xC6A9,
    0x20, 0xD0D0, 0xAD6C, 0x20, 0xACFC, 0xC81C, 0x20, 0xD6C4, 0xBCF4, 0xB97C, 0x20, 0xC124,
    0xACC4, 0xD574, 0xC918, 0x2E, 0x0A, 0x2D, 0x20, 0xD0D0, 0xAD6C, 0x20, 0xC9C8, 0xBB38,
    0x2F, 0xAC00, 0xC124, 0x0A, 0x2D, 0x20, 0xD0D0, 0xAD6C, 0x20, 0xBC29, 0xBC95, 0x28,
    0xC2E4, 0xD5D8, 0x20, 0xB610, 0xB294, 0x20, 0xC870, 0xC0AC, 0x29, 0x0A, 0x2D, 0x20,
    0xB09C, 0xC774, 0xB3C4, 0x28, 0xC26C, 0xC6C0, 0x2F, 0xBCF4, 0xD1B5, 0x2F, 0xC5B4, 0xB824,
    0xC6C0, 0x29, 0x0A, 0x0A, 0xC774, 0xB7F0, 0x20, 0xC544, 0xC774, 0xB514, 0xC5B4, 0xB97C,
    0x20, 0x33, 0x7E, 0x35, 0xAC1C, 0x20, 0xBC88, 0xD638, 0x20, 0xBAA9, 0xB85D, 0x28,
    0x31, 0x2C, 0x20, 0x32, 0x2C, 0x20, 0x33, 0x2C, 0x20, 0x2E, 0x2E, 0x2E,
    0x29, 0xC73C, 0xB85C, 0x20, 0xC791, 0xC131, 0xD574, 0xC918, 0x2E, 0x0A]"

definition plan_ideas_prompt :: "pystr \<Rightarrow> pystr \<Rightarrow> pystr" where
  "plan_ideas_prompt user_input bg = plan_ideas_prompt_lit0 @ user_input @ plan_ideas_prompt_lit1 @ bg @ plan_ideas_prompt_lit2"

text \<open>
  Lines 375--405 (\<^verbatim>\<open>handle_mode_a_plan\<close>): the prompt whose answer is bound to \<^verbatim>\<open>plan\<close>.
\<close>

definition plan_plan_prompt_lit0 :: pystr where
  "plan_plan_prompt_lit0 = [
    0x0A, 0xB108, 0xB294, 0x20, 0xACE0, 0xB4F1, 0xD559, 0xC0DD, 0x20, 0xD0D0, 0xAD6C, 0xBCF4,
    0xACE0, 0xC11C, 0x20, 0xC9C0, 0xB3C4, 0x20, 0xAD50, 0xC0AC, 0xC57C, 0x2E, 0x0A, 0x0A,
    0x5B, 0xD0D0, 0xAD6C, 0x20, 0xC8FC, 0xC81C, 0x5D, 0x0A]"

definition plan_plan_prompt_lit1 :: pystr where
  "plan_plan_prompt_lit1 = [
    0x0A, 0x0A, 0x5B, 0xBC30, 0xACBD, 0xC9C0, 0xC2DD, 0x20, 0xC694, 0xC57D, 0x5D, 0x0A]"

definition plan_plan_prompt_lit2 :: pystr where
  "plan_plan_prompt_lit2 = [
    0x0A, 0x0A, 0x5B, 0xAC00, 0xB2A5, 0xD55C, 0x20, 0xD0D0, 0xAD6C, 0x20, 0xBC29, 0xD5A5,
    0x20, 0xC544, 0xC774, 0xB514, 0xC5B4, 0xB4E4, 0x5D, 0x0A]"

definition plan_plan_prompt_lit3 :: pystr where
  "plan_plan_prompt_lit3 = [
    0x0A, 0x0A, 0xC704, 0x20, 0xB0B4, 0xC6A9, 0xC744, 0x20, 0xBC14, 0xD0D5, 0xC73C, 0xB85C,
    0x2C, 0x0A, 0x31, 0x2E, 0x20, 0xAC00, 0xC7A5, 0x20, 0xC801, 0xC808, 0xD574, 0x20,
    0xBCF4, 0xC774, 0xB294, 0x20, 0xD0D0, 0xAD6C, 0x20, 0xBC29, 0xD5A5, 0x20, 0x31, 0x7E,
    0x32, 0xAC1C, 0xB97C, 0x20, 0xCD94, 0xCC9C, 0xD558, 0xACE0, 0x2C, 0x0A, 0x32, 0x2E,
    0x20, 0xAC01, 0x20, 0xBC29, 0xD5A5, 0xC5D0, 0x20, 0xB300, 0xD574, 0x20, 0xB2E4, 0xC74C,
    0x20, 0xD615, 0xC2DD, 0xC73C, 0xB85C, 0xB9CC, 0x20, 0xC815, 0xB9AC, 0xD574, 0xC918, 0x2E,
    0x0A, 0x0A, 0x2D, 0x20, 0xD0D0, 0xAD6C, 0x20, 0xBC29, 0xD5A5, 0x20, 0xBC88, 0xD638,
    0x20, 0x28, 0xC608, 0x3A, 0x20, 0xD6C4, 0xBCF4, 0x20, 0x32, 0xBC88, 0x29, 0x0A,
    0x2D, 0x20, 0xD0D0, 0xAD6C, 0x20, 0xC81C, 0xBAA9, 0x0A, 0x2D, 0x20, 0xD0D0, 0xAD6C,
    0x20, 0xBAA9, 0xC801, 0x0A, 0x2D, 0x20, 0xD0D0, 0xAD6C, 0x20, 0xC9C8, 0xBB38, 0x2F,
    0xAC00, 0xC124, 0x0A, 0x2D, 0x20, 0xAC04, 0xB2E8, 0xD55C, 0x20, 0xD0D0, 0xAD6C, 0x20,
    0xBC29, 0xBC95, 0x20, 0xAC1C, 0xC694, 0x0A, 0x0A, 0xC544, 0xC9C1, 0x20, 0xBCF4, 0xACE0,
    0xC11C, 0x20, 0xBCF8, 0xBB38, 0xC744, 0x20, 0xC4F0, 0xC9C0, 0xB294, 0x20, 0xB9D0, 0xACE0,
    0x2C, 0x0A, 0x27, 0xC5B4, 0xB5A4, 0x20, 0xBC29, 0xD5A5, 0xC73C, 0xB85C, 0x20, 0xD0D0,
    0xAD6C, 0xD560, 0xC9C0, 0x27, 0xB9CC, 0x20, 0xC815, 0xB9AC, 0xD574, 0xC918, 0x2E, 0x0A,
    0x0A, 0xB9C8, 0xC9C0, 0xB9C9, 0x20, 0xC904, 0xC5D0, 0x20, 0xB2E4, 0xC74C, 0x20, 0xBB38,
    0xC7A5, 0xC744, 0x20, 0xAF2D, 0x20, 0xBD99, 0xC5EC, 0xC918, 0x3A, 0x0A, 0x0A, 0x22,
    0x27A1, 0x20, 0xC774, 0x20, 0xC911, 0xC5D0, 0xC11C, 0x20, 0xC120, 0xD0DD, 0xD55C, 0x20,
    0xBC88, 0xD638, 0xC640, 0x20, 0xD568, 0xAED8, 0x20, 0x27, 0xC774, 0xC81C, 0x20, 0xC774,
    0x20, 0xC911, 0xC5D0, 0xC11C, 0x20, 0x58, 0xBC88, 0xC73C, 0xB85C, 0x20, 0xD0D0, 0xAD6C,
    0x20, 0xBCF4, 0xACE0, 0xC11C, 0x20, 0xC791, 0xC131, 0xD574, 0xC918, 0x27, 0xB77C, 0xACE0,
    0x20, 0xC694, 0xCCAD, 0xD558, 0xBA74, 0x2C, 0x20, 0xC774, 0xC5D0, 0x20, 0xB9DE, 0xB294,
    0x20, 0xD0D0, 0xAD6C, 0x20, 0xBCF4, 0xACE0, 0xC11C, 0xB97C, 0x20, 0xC791, 0xC131, 0xD574,
    0x20, 0xC904, 0x20, 0xC218, 0x20, 0xC788, 0xC2B5, 0xB2C8, 0xB2E4, 0x2E, 0x22, 0x0A]"

definition plan_plan_prompt :: "pystr \<Rightarrow> pystr \<Rightarrow> pystr \<Rightarrow> pystr" where
  "plan_plan_prompt user_input bg ideas = plan_plan_prompt_lit0 @ user_input @ plan_plan_prompt_lit1 @ bg @ plan_plan_prompt_lit2 @ ideas @ plan_plan_prompt_lit3"

text \<open>
  Lines 416--439 (\<^verbatim>\<open>handle_mode_a_report\<close>): the prompt whose answer is bound to \<^verbatim>\<open>outline\<close>.
\<close>

definition report_outline_prompt_lit0 :: pystr where
  "report_outline_prompt_lit0 = [
    0x0A, 0xB108, 0xB294, 0x20, 0xACE0, 0xB4F1, 0xD559, 0xC0DD, 0x20, 0xD0D0, 0xAD6C, 0xBCF4,
    0xACE0, 0xC11C, 0x20, 0xC791, 0xC131, 0x20, 0xB3C4, 0xC6B0, 0xBBF8, 0xC57C, 0x2E, 0x0A,
    0x0A, 0x5B, 0xC774, 0xC804, 0x20, 0xB2E8, 0xACC4, 0xC5D0, 0xC11C, 0x20, 0xC0DD, 0xC131,
    0xB41C, 0x20, 0xD0D0, 0xAD6C, 0x20, 0xBC29, 0xD5A5, 0x2F, 0xACC4, 0xD68D, 0x5D, 0x0A]"

definition report_outline_prompt_lit1 :: pystr where
  "report_outline_prompt_lit1 = [
    0x0A, 0x0A, 0x5B, 0xC0AC, 0xC6A9, 0xC790, 0xC758, 0x20, 0xCD94, 0xAC00, 0x20, 0xC694,
    0xCCAD, 0x5D, 0x0A]"

definition report_outline_prompt_lit2 :: pystr where
  "report_outline_prompt_lit2 = [
    0x0A, 0x0A, 0x31, 0x2E, 0x20, 0xC0AC, 0xC6A9, 0xC790, 0xAC00, 0x20, 0xC5B4, 0xB290,
    0x20, 0xD0D0, 0xAD6C, 0x20, 0xBC29, 0xD5A5, 0x28, 0xBA87, 0x20, 0xBC88, 0x29, 0xC744,
    0x20, 0xC120, 0xD0DD, 0xD588, 0xB294, 0xC9C0, 0x20, 0xCD94, 0xB860, 0xD558, 0xACE0, 0x2C,
    0x0A, 0x32, 0x2E, 0x20, 0xADF8, 0x20, 0xBC29, 0xD5A5, 0xC5D0, 0x20, 0xB9DE, 0xB294,
    0x20, 0xD0D0, 0xAD6C, 0xBCF4, 0xACE0, 0xC11C, 0xC758, 0x20, 0x27, 0xAC1C, 0xC694, 0x28,
    0xBAA9, 0xCC28, 0x20, 0x2B, 0x20, 0xAC01, 0x20, 0xD56D, 0xBAA9, 0x20, 0xC694, 0xC57D,
    0x29, 0x27, 0xB97C, 0x20, 0xBA3C, 0xC800, 0x20, 0xB9CC, 0xB4E4, 0xC5B4, 0xC918, 0x2E,
    0x0A, 0x0A, 0xAC1C, 0xC694, 0x20, 0xD615, 0xC2DD, 0x20, 0xC608, 0xC2DC, 0x3A, 0x0A,
    0x31, 0x2E, 0x20, 0xC11C, 0xB860, 0x20, 0x28, 0xBB38, 0xC81C, 0x20, 0xC81C, 0xAE30,
    0x2C, 0x20, 0xD0D0, 0xAD6C, 0x20, 0xB3D9, 0xAE30, 0x29, 0x0A, 0x32, 0x2E, 0x20,
    0xC774, 0xB860, 0xC801, 0x20, 0xBC30, 0xACBD, 0x0A, 0x33, 0x2E, 0x20, 0xD0D0, 0xAD6C,
    0x20, 0xBC29, 0xBC95, 0x0A, 0x34, 0x2E, 0x20, 0xD0D0, 0xAD6C, 0x20, 0xACB0, 0xACFC,
    0x0A, 0x35, 0x2E, 0x20, 0xACB0, 0xB860, 0x20, 0xBC0F, 0x20, 0xB290, 0xB080, 0x20,
    0xC810, 0x0A, 0x0A, 0xAC01, 0x20, 0xD56D, 0xBAA9, 0x20, 0xC544, 0xB798, 0xC5D0, 0x2C,
    0x20, 0xC5B4, 0xB5A4, 0x20, 0xB0B4, 0xC6A9, 0xC744, 0x20, 0xC4F8, 0xC9C0, 0x20, 0x32,
    0x7E, 0x33, 0xBB38, 0xC7A5, 0x20, 0xC815, 0xB3C4, 0xB85C, 0x20, 0xAC04, 0xB2E8, 0xD788,
    0x20, 0xC124, 0xBA85, 0xD574, 0xC918, 0x2E, 0x0A, 0xC544, 0xC9C1, 0x20, 0xBB38, 0xB2E8,
    0x20, 0xC804, 0xCCB4, 0xB97C, 0x20, 0xAE38, 0xAC8C, 0x20, 0xC4F0, 0xC9C0, 0xB294, 0x20,
    0xB9C8, 0x2E, 0x0A]"

definition report_outline_prompt :: "pystr \<Rightarrow> pystr \<Rightarrow> pystr" where
  "report_outline_prompt previous_answer user_input = report_outline_prompt_lit0 @ previous_answer @ report_outline_prompt_lit1 @ user_input @ report_outline_prompt_lit2"

text \<open>
  Lines 442--458 (\<^verbatim>\<open>handle_mode_a_report\<close>): the prompt whose answer is bound to \<^verbatim>\<open>final_report\<close>.
\<close>

definition report_final_prompt_lit0 :: pystr where
  "report_final_prompt_lit0 = [
    0x0A, 0xC544, 0xB798, 0xB294, 0x20, 0xACE0, 0xB4F1, 0xD559, 0xC0DD, 0x20, 0xACFC, 0xD559,
    0x20, 0xD0D0, 0xAD6C, 0xBCF4, 0xACE0, 0xC11C, 0xC758, 0x20, 0xAC1C, 0xC694, 0xC57C, 0x2E,
    0x0A, 0x0A, 0x5B, 0xBCF4, 0xACE0, 0xC11C, 0x20, 0xAC1C, 0xC694, 0x5D, 0x0A]"

definition report_final_prompt_lit1 :: pystr where
  "report_final_prompt_lit1 = [
    0x0A, 0x0A, 0xC774, 0x20, 0xAC1C, 0xC694, 0xB97C, 0x20, 0xBC14, 0xD0D5, 0xC73C, 0xB85C,
    0x2C, 0x20, 0xC2E4, 0xC81C, 0x20, 0xD0D0, 0xAD6C, 0xBCF4, 0xACE0, 0xC11C, 0x20, 0xCD08,
    0xC548, 0xC744, 0x20, 0xC791, 0xC131, 0xD574, 0xC918, 0x2E, 0x0A, 0xC694, 0xAD6C, 0xC0AC,
    0xD56D, 0x3A, 0x0A, 0x2D, 0x20, 0xACE0, 0xB4F1, 0xD559, 0xC0DD, 0xC774, 0x20, 0xC81C,
    0xCD9C, 0xD558, 0xB294, 0x20, 0xC218, 0xD589, 0xD3C9, 0xAC00, 0x2F, 0xD0D0, 0xAD6C, 0xBCF4,
    0xACE0, 0xC11C, 0x20, 0xD1A4, 0x0A, 0x2D, 0x20, 0xC11C, 0xB860, 0x20, 0x2F, 0x20,
    0xC774, 0xB860, 0xC801, 0x20, 0xBC30, 0xACBD, 0x20, 0x2F, 0x20, 0xD0D0, 0xAD6C, 0x20,
    0xBC29, 0xBC95, 0x20, 0x2F, 0x20, 0xD0D0, 0xAD6C, 0x20, 0xACB0, 0xACFC, 0x28, 0xC608,
    0xC0C1, 0x20, 0xACB0, 0xACFC, 0x20, 0xAC00, 0xB2A5, 0x29, 0x20, 0x2F, 0x20, 0xACB0,
    0xB860, 0x20, 0xBC0F, 0x20, 0xB290, 0xB080, 0x20, 0xC810, 0x20, 0xC21C, 0xC11C, 0x0A,
    0x2D, 0x20, 0xAC01, 0x20, 0xD56D, 0xBAA9, 0xC740, 0x20, 0xCD5C, 0xC18C, 0x20, 0x32,
    0x7E, 0x33, 0xBB38, 0xB2E8, 0x20, 0xC815, 0xB3C4, 0xB85C, 0x20, 0xC791, 0xC131, 0x0A,
    0x2D, 0x20, 0xB108, 0xBB34, 0x20, 0xC804, 0xBB38, 0x20, 0xC6A9, 0xC5B4, 0xB9CC, 0x20,
    0xB0A8, 0xBC1C, 0xD558, 0xC9C0, 0x20, 0xB9D0, 0xACE0, 0x2C, 0x20, 0xD544, 0xC694, 0xD558,
    0xBA74, 0x20, 0xAD04, 0xD638, 0x20, 0xC548, 0xC5D0, 0x20, 0xAC04, 0xB2E8, 0xD55C, 0x20,
    0xC124, 0xBA85, 0x0A, 0x0A, 0xC804, 0xCCB4, 0xB97C, 0x20, 0xD558, 0xB098, 0xC758, 0x20,
    0xBCF4, 0xACE0, 0xC11C, 0xCC98, 0xB7FC, 0x20, 0xC790, 0xC5F0, 0xC2A4, 0xB7FD, 0xAC8C, 0x20,
    0xC774, 0xC5B4, 0xC9C0, 0xAC8C, 0x20, 0xC368, 0xC918, 0x2E, 0x0A]"

definition report_final_prompt :: "pystr \<Rightarrow> pystr" where
  "report_final_prompt outline = report_final_prompt_lit0 @ outline @ report_final_prompt_lit1"

text \<open>
  Lines 470--475 (\<^verbatim>\<open>handle_mode_b_essay\<close>): the prompt whose answer is bound to \<^verbatim>\<open>facts\<close>.
\<close>

definition essay_facts_prompt_lit0 :: pystr where
  "essay_facts_prompt_lit0 = [
    0x0A, 0xC544, 0xB798, 0x20, 0xB17C, 0xC124, 0xBB38, 0x20, 0xC8FC, 0xC81C, 0xC640, 0x20,
    0xAD00, 0xB828, 0xD574, 0xC11C, 0x2C, 0x20, 0xC0AC, 0xC2E4, 0x20, 0xC790, 0xB8CC, 0x2F,
    0xD1B5, 0xACC4, 0x2F, 0xC0AC, 0xB840, 0xB97C, 0x20, 0xD55C, 0xAD6D, 0xC5B4, 0xB85C, 0x20,
    0xAC04, 0xB2E8, 0xD788, 0x20, 0xC815, 0xB9AC, 0xD574, 0xC918, 0x2E, 0x0A, 0xB17C, 0xC124,
    0xBB38, 0x20, 0xC8FC, 0xC81C, 0x3A, 0x20]"

definition essay_facts_prompt_lit1 :: pystr where
  "essay_facts_prompt_lit1 = [
    0x0A]"

definition essay_facts_prompt :: "pystr \<Rightarrow> pystr" where
  "essay_facts_prompt user_input = essay_facts_prompt_lit0 @ user_input @ essay_facts_prompt_lit1"

text \<open>
  Lines 478--495 (\<^verbatim>\<open>handle_mode_b_essay\<close>): the prompt whose answer is bound to \<^verbatim>\<open>draft\<close>.
\<close>

definition essay_draft_prompt_lit0 :: pystr where
  "essay_draft_prompt_lit0 = [
    0x0A, 0xB108, 0xB294, 0x20, 0xACE0, 0xB4F1, 0xD559, 0xC0DD, 0x20, 0xB17C, 0xC124, 0xBB38,
    0xC744, 0x20, 0xB3C4, 0xC640, 0xC8FC, 0xB294, 0x20, 0xD55C, 0xAD6D, 0xC5B4, 0x20, 0xC120,
    0xC0DD, 0xB2D8, 0xC774, 0xC57C, 0x2E, 0x0A, 0x0A, 0x5B, 0xB17C, 0xC124, 0xBB38, 0x20,
    0xC8FC, 0xC81C, 0x5D, 0x0A]"

definition essay_draft_prompt_lit1 :: pystr where
  "essay_draft_prompt_lit1 = [
    0x0A, 0x0A, 0x5B, 0xCC38, 0xACE0, 0x20, 0xC790, 0xB8CC, 0x5D, 0x0A]"

definition essay_draft_prompt_lit2 :: pystr where
  "essay_draft_prompt_lit2 = [
    0x0A, 0x0A, 0xC694, 0xAD6C, 0x20, 0xC0AC, 0xD56D, 0x3A, 0x0A, 0x2D, 0x20, 0xC11C,
    0xB860, 0x20, 0x2F, 0x20, 0xBCF8, 0xB860, 0x28, 0x32, 0x7E, 0x33, 0xAC1C, 0xC758,
    0x20, 0xB17C, 0xAC70, 0x29, 0x20, 0x2F, 0x20, 0xACB0, 0xB860, 0x20, 0xAD6C, 0xC870,
    0x0A, 0x2D, 0x20, 0xBB38, 0xC5B4, 0xCCB4, 0x2C, 0x20, 0xC874, 0xB313, 0xB9D0, 0x0A,
    0x2D, 0x20, 0xBD84, 0xB7C9, 0x3A, 0x20, 0xB300, 0xB7B5, 0x20, 0x38, 0x30, 0x30,
    0x7E, 0x31, 0x32, 0x30, 0x30, 0xC790, 0x0A, 0x0A, 0xC704, 0x20, 0xC870, 0xAC74,
    0xC5D0, 0x20, 0xB9DE, 0xB294, 0x20, 0xB17C, 0xC124, 0xBB38, 0x20, 0xCD08, 0xC548, 0xC744,
    0x20, 0xC791, 0xC131, 0xD574, 0xC918, 0x2E, 0x0A]"

definition essay_draft_prompt :: "pystr \<Rightarrow> pystr \<Rightarrow> pystr" where
  "essay_draft_prompt user_input facts = essay_draft_prompt_lit0 @ user_input @ essay_draft_prompt_lit1 @ facts @ essay_draft_prompt_lit2"

text \<open>
  Lines 498--512 (\<^verbatim>\<open>handle_mode_b_essay\<close>): the prompt whose answer is bound to \<^verbatim>\<open>checked\<close>.
\<close>

definition essay_checked_prompt_lit0 :: pystr where
  "essay_checked_prompt_lit0 = [
    0x0A, 0xB2E4, 0xC74C, 0xC740, 0x20, 0xACE0, 0xB4F1, 0xD559, 0xC0DD, 0xC774, 0x20, 0xC81C,
    0xCD9C, 0xD560, 0x20, 0xB17C, 0xC124, 0xBB38, 0x20, 0xCD08, 0xC548, 0xC774, 0xC57C, 0x2E,
    0x0A, 0x0A, 0x5B, 0xCD08, 0xC548, 0x5D, 0x0A]"

definition essay_checked_prompt_lit1 :: pystr where
  "essay_checked_prompt_lit1 = [
    0x0A, 0x0A, 0xB108, 0xC758, 0x20, 0xC5ED, 0xD560, 0x3A, 0x0A, 0x31, 0x2E, 0x20,
    0xB17C, 0xB9AC, 0x20, 0xC804, 0xAC1C, 0xAC00, 0x20, 0xC790, 0xC5F0, 0xC2A4, 0xB7EC, 0xC6B4,
    0xC9C0, 0x20, 0xD655, 0xC778, 0xD558, 0xACE0, 0x2C, 0x20, 0xC5B4, 0xC0C9, 0xD558, 0xAC70,
    0xB098, 0x20, 0xBAA8, 0xC21C, 0xB41C, 0x20, 0xBD80, 0xBD84, 0xC744, 0x20, 0xC9C0, 0xC801,
    0x20, 0xD6C4, 0x20, 0xC218, 0xC815, 0x2E, 0x0A, 0x32, 0x2E, 0x20, 0xACFC, 0xB3C4,
    0xD55C, 0x20, 0xD45C, 0xD604, 0xC774, 0xB098, 0x20, 0xC0AC, 0xC2E4, 0xACFC, 0x20, 0xB2E4,
    0xB97C, 0x20, 0xC218, 0x20, 0xC788, 0xB294, 0x20, 0xBD80, 0xBD84, 0xC740, 0x20, 0xC644,
    0xD654, 0xD574, 0xC11C, 0x20, 0xD45C, 0xD604, 0x2E, 0x0A, 0x33, 0x2E, 0x20, 0xC804,
    0xCCB4, 0x20, 0xAD6C, 0xC870, 0x28, 0xC11C, 0xB860, 0x2D, 0xBCF8, 0xB860, 0x2D, 0xACB0,
    0xB860, 0x29, 0xB294, 0x20, 0xC720, 0xC9C0, 0xD558, 0xB418, 0x2C, 0x20, 0xBB38, 0xC7A5,
    0xC758, 0x20, 0xD750, 0xB984, 0xB9CC, 0x20, 0xC0B4, 0xC9DD, 0x20, 0xC815, 0xB9AC, 0x2E,
    0x0A, 0x0A, 0xC218, 0xC815, 0xB41C, 0x20, 0xB17C, 0xC124, 0xBB38, 0xB9CC, 0x20, 0xD55C,
    0xAD6D, 0xC5B4, 0xB85C, 0x20, 0xBCF4, 0xC5EC, 0xC918, 0x2E, 0x0A]"

definition essay_checked_prompt :: "pystr \<Rightarrow> pystr" where
  "essay_checked_prompt draft = essay_checked_prompt_lit0 @ draft @ essay_checked_prompt_lit1"

text \<open>
  Lines 515--529 (\<^verbatim>\<open>handle_mode_b_essay\<close>): the prompt whose answer is bound to \<^verbatim>\<open>final\<close>.
\<close>

definition essay_final_prompt_lit0 :: pystr where
  "essay_final_prompt_lit0 = [
    0x0A, 0xC544, 0xB798, 0xB294, 0x20, 0xB17C, 0xB9AC, 0xC801, 0xC73C, 0xB85C, 0x20, 0xC810,
    0xAC80, 0xB41C, 0x20, 0xACE0, 0xB4F1, 0xD559, 0xC0DD, 0x20, 0xB17C, 0xC124, 0xBB38, 0xC774,
    0xC57C, 0x2E, 0x0A, 0x0A, 0x5B, 0xB17C, 0xC124, 0xBB38, 0x5D, 0x0A]"

definition essay_final_prompt_lit1 :: pystr where
  "essay_final_prompt_lit1 = [
    0x0A, 0x0A, 0xC774, 0x20, 0xAE00, 0xC758, 0x3A, 0x0A, 0x2D, 0x20, 0xBB38, 0xC7A5,
    0xC744, 0x20, 0xC870, 0xAE08, 0x20, 0xB354, 0x20, 0xC790, 0xC5F0, 0xC2A4, 0xB7FD, 0xACE0,
    0x20, 0xC720, 0xB824, 0xD558, 0xAC8C, 0x20, 0xB2E4, 0xB4EC, 0xACE0, 0x0A, 0x2D, 0x20,
    0xBB38, 0xB2E8, 0x20, 0xAC04, 0x20, 0xC5F0, 0xACB0, 0xC744, 0x20, 0xBD80, 0xB4DC, 0xB7FD,
    0xAC8C, 0x20, 0xC774, 0xC5B4, 0xC8FC, 0xACE0, 0x0A, 0x2D, 0x20, 0xC804, 0xCCB4, 0x20,
    0xD1A4, 0xC740, 0x20, 0x27, 0xACE0, 0xB4F1, 0xD559, 0xC0DD, 0x20, 0xC218, 0xC900, 0xC758,
    0x20, 0xC815, 0xC911, 0xD55C, 0x20, 0xB17C, 0xC124, 0xBB38, 0x27, 0xC73C, 0xB85C, 0x20,
    0xC720, 0xC9C0, 0xD574, 0xC918, 0x2E, 0x0A, 0x0A, 0xCD5C, 0xC885, 0x20, 0xC218, 0xC815,
    0xBCF8, 0xB9CC, 0x20, 0xBCF4, 0xC5EC, 0xC918, 0x2E, 0x0A]"

definition essay_final_prompt :: "pystr \<Rightarrow> pystr" where
  "essay_final_prompt checked = essay_final_prompt_lit0 @ checked @ essay_final_prompt_lit1"

text \<open>
  Lines 541--551 (\<^verbatim>\<open>handle_mode_c_ideas\<close>): the prompt whose answer is bound to \<^verbatim>\<open>raw_ideas\<close>.
\<close>

definition ideas_raw_prompt_lit0 :: pystr where
  "ideas_raw_prompt_lit0 = [
    0x0A, 0xB108, 0xB294, 0x20, 0xACE0, 0xB4F1, 0xD559, 0xC0DD, 0xC744, 0x20, 0xB3D5, 0xB294,
    0x20, 0xC544, 0xC774, 0xB514, 0xC5B4, 0x20, 0xBE0C, 0xB808, 0xC778, 0xC2A4, 0xD1A0, 0xBC0D,
    0x20, 0xB3C4, 0xC6B0, 0xBBF8, 0xC57C, 0x2E, 0x0A, 0x0A, 0x5B, 0xC0AC, 0xC6A9, 0xC790,
    0x20, 0xC694, 0xCCAD, 0x5D, 0x0A]"

definition ideas_raw_prompt_lit1 :: pystr where
  "ideas_raw_prompt_lit1 = [
    0x0A, 0x0A, 0xC704, 0x20, 0xC694, 0xCCAD, 0xC744, 0x20, 0xBC14, 0xD0D5, 0xC73C, 0xB85C,
    0x2C, 0x20, 0xC11C, 0xB85C, 0x20, 0xCDA9, 0xBD84, 0xD788, 0x20, 0xB2E4, 0xB978, 0x20,
    0xC544, 0xC774, 0xB514, 0xC5B4, 0xB97C, 0x20, 0xCD5C, 0xC18C, 0x20, 0x32, 0x30, 0xAC1C,
    0x20, 0x62, 0x75, 0x6C, 0x6C, 0x65, 0x74, 0x20, 0xBAA9, 0xB85D, 0xC73C, 0xB85C,
    0x20, 0xB9CC, 0xB4E4, 0xC5B4, 0xC918, 0x2E, 0x0A, 0xAC01, 0x20, 0xC544, 0xC774, 0xB514,
    0xC5B4, 0xB294, 0x20, 0xD55C, 0x20, 0xC904, 0x20, 0xC694, 0xC57D, 0xC73C, 0xB85C, 0x20,
    0xC791, 0xC131, 0xD574, 0x2E, 0x0A]"

definition ideas_raw_prompt :: "pystr \<Rightarrow> pystr" where
  "ideas_raw_prompt user_input = ideas_raw_prompt_lit0 @ user_input @ ideas_raw_prompt_lit1"

text \<open>
  Lines 554--578 (\<^verbatim>\<open>handle_mode_c_ideas\<close>): the prompt whose answer is bound to \<^verbatim>\<open>refined\<close>.
\<close>

definition ideas_refined_prompt_lit0 :: pystr where
  "ideas_refined_prompt_lit0 = [
    0x0A, 0xB108, 0xB294, 0x20, 0xCC3D, 0xC758, 0xC801, 0xC774, 0xBA74, 0xC11C, 0xB3C4, 0x20,
    0xD604, 0xC2E4, 0xC801, 0xC778, 0x20, 0xC544, 0xC774, 0xB514, 0xC5B4, 0xB97C, 0x20, 0xACE8,
    0xB77C, 0xC8FC, 0xB294, 0x20, 0xC804, 0xBB38, 0xAC00, 0xC57C, 0x2E, 0x0A, 0x0A, 0x5B,
    0xC0AC, 0xC6A9, 0xC790, 0x20, 0xC694, 0xCCAD, 0x5D, 0x0A]"

definition ideas_refined_prompt_lit1 :: pystr where
  "ideas_refined_prompt_lit1 = [
    0x0A, 0x0A, 0x5B, 0x47, 0x50, 0x54, 0xAC00, 0x20, 0xB9CC, 0xB4E0, 0x20, 0xC544,
    0xC774, 0xB514, 0xC5B4, 0x20, 0x32, 0x30, 0xAC1C, 0x5D, 0x0A]"

definition ideas_refined_prompt_lit2 :: pystr where
  "ideas_refined_prompt_lit2 = [
    0x0A, 0x0A, 0xC704, 0x20, 0xC544, 0xC774, 0xB514, 0xC5B4, 0x20, 0xC911, 0xC5D0, 0xC11C,
    0x2C, 0x0A, 0x2D, 0x20, 0xC2E4, 0xD604, 0x20, 0xAC00, 0xB2A5, 0xC131, 0xC774, 0x20,
    0xB192, 0xACE0, 0x0A, 0x2D, 0x20, 0xAD50, 0xC721, 0xC801, 0xC73C, 0xB85C, 0x20, 0xC758,
    0xBBF8, 0x20, 0xC788, 0xACE0, 0x0A, 0x2D, 0x20, 0xC5B4, 0xB290, 0x20, 0xC815, 0xB3C4,
    0x20, 0xCC3D, 0xC758, 0xC801, 0xC778, 0x20, 0xAC83, 0x0A, 0x0A, 0xC744, 0x20, 0xC911,
    0xC2EC, 0xC73C, 0xB85C, 0x20, 0x31, 0x30, 0xAC1C, 0xB9CC, 0x20, 0xACE0, 0xB974, 0xB294,
    0x20, 0xB3D9, 0xC2DC, 0xC5D0, 0x2C, 0x0A, 0xAC01, 0x20, 0xC544, 0xC774, 0xB514, 0xC5B4,
    0xC5D0, 0x20, 0xB300, 0xD574, 0x3A, 0x0A, 0x2D, 0x20, 0xC544, 0xC774, 0xB514, 0xC5B4,
    0x20, 0xC81C, 0xBAA9, 0x0A, 0x2D, 0x20, 0xC2E4, 0xD604, 0x20, 0xAC00, 0xB2A5, 0xC131,
    0x3A, 0x20, 0xB192, 0xC74C, 0x2F, 0xBCF4, 0xD1B5, 0x2F, 0xB0AE, 0xC74C, 0x0A, 0x2D,
    0x20, 0xC124, 0xBA85, 0x3A, 0x20, 0x31, 0x7E, 0x32, 0xBB38, 0xC7A5, 0x0A, 0x2D,
    0x20, 0xD655, 0xC7A5, 0x20, 0xC544, 0xC774, 0xB514, 0xC5B4, 0x3A, 0x20, 0x31, 0x7E,
    0x32, 0xAC1C, 0x20, 0x62, 0x75, 0x6C, 0x6C, 0x65, 0x74, 0x0A, 0x0A, 0xD615,
    0xC2DD, 0xC73C, 0xB85C, 0x20, 0xC815, 0xB9AC, 0xD574, 0xC918, 0x2E, 0x0A]"

definition ideas_refined_prompt :: "pystr \<Rightarrow> pystr \<Rightarrow> pystr" where
  "ideas_refined_prompt user_input raw_ideas = ideas_refined_prompt_lit0 @ user_input @ ideas_refined_prompt_lit1 @ raw_ideas @ ideas_refined_prompt_lit2"

text \<open>
  Lines 581--592 (\<^verbatim>\<open>handle_mode_c_ideas\<close>): the prompt whose answer is bound to \<^verbatim>\<open>final\<close>.
\<close>

definition ideas_final_prompt_lit0 :: pystr where
  "ideas_final_prompt_lit0 = [
    0x0A, 0xC544, 0xB798, 0xB294, 0x20, 0xACE0, 0xB4F1, 0xD559, 0xC0DD, 0xC744, 0x20, 0xC704,
    0xD55C, 0x20, 0xC544, 0xC774, 0xB514, 0xC5B4, 0x20, 0xBAA9, 0xB85D, 0xC774, 0xC57C, 0x2E,
    0x0A, 0x0A]"

definition ideas_final_prompt_lit1 :: pystr where
  "ideas_final_prompt_lit1 = [
    0x0A, 0x0A, 0xC774, 0x20, 0xBAA9, 0xB85D, 0xC744, 0x3A, 0x0A, 0x2D, 0x20, 0xBB38,
    0xC7A5, 0xB9CC, 0x20, 0xC870, 0xAE08, 0x20, 0xB354, 0x20, 0xC790, 0xC5F0, 0xC2A4, 0xB7FD,
    0xAC8C, 0x20, 0xB2E4, 0xB4EC, 0xACE0, 0x0A, 0x2D, 0x20, 0xBC88, 0xD638, 0xC640, 0x20,
    0xAD6C, 0xC131, 0xC744, 0x20, 0xBCF4, 0xAE30, 0x20, 0xC88B, 0xAC8C, 0x20, 0xC815, 0xB9AC,
    0xD574, 0xC918, 0x2E, 0x0A, 0xB0B4, 0xC6A9, 0xC740, 0x20, 0xD06C, 0xAC8C, 0x20, 0xBC14,
    0xAFB8, 0xC9C0, 0x20, 0xB9D0, 0xACE0, 0x20, 0xD45C, 0xD604, 0xB9CC, 0x20, 0xC815, 0xB9AC,
    0xD574, 0xC918, 0x2E, 0x0A]"

definition ideas_final_prompt :: "pystr \<Rightarrow> pystr" where
  "ideas_final_prompt refined = ideas_final_prompt_lit0 @ refined @ ideas_final_prompt_lit1"

text \<open>
  Lines 603--611 (\<^verbatim>\<open>handle_mode_d_research\<close>): the prompt whose answer is bound to \<^verbatim>\<open>px_answer\<close>.
\<close>

definition research_px_prompt_lit0 :: pystr where
  "research_px_prompt_lit0 = [
    0x0A, 0xC544, 0xB798, 0x20, 0xC8FC, 0xC81C, 0xC5D0, 0x20, 0xB300, 0xD574, 0x20, 0xC6F9,
    0x20, 0xC790, 0xB8CC, 0xB97C, 0x20, 0xC870, 0xC0AC, 0xD574, 0xC11C, 0x2C, 0x0A, 0xD575,
    0xC2EC, 0x20, 0xB0B4, 0xC6A9, 0xACFC, 0x20, 0xC911, 0xC694, 0xD55C, 0x20, 0xD3EC, 0xC778,
    0xD2B8, 0xB97C, 0x20, 0xD55C, 0xAD6D, 0xC5B4, 0xB85C, 0x20, 0xC694, 0xC57D, 0xD574, 0xC918,
    0x2E, 0x0A, 0xD544, 0xC694, 0xD558, 0xBA74, 0x20, 0xAC04, 0xB2E8, 0xD55C, 0x20, 0xCD9C,
    0xCC98, 0xB3C4, 0x20, 0xD568, 0xAED8, 0x20, 0xC801, 0xC5B4, 0xC918, 0x2E, 0x0A, 0x0A,
    0xC8FC, 0xC81C, 0x3A, 0x20]"

definition research_px_prompt_lit1 :: pystr where
  "research_px_prompt_lit1 = [
    0x0A]"

definition research_px_prompt :: "pystr \<Rightarrow> pystr" where
  "research_px_prompt user_input = research_px_prompt_lit0 @ user_input @ research_px_prompt_lit1"

text \<open>
  Lines 614--628 (\<^verbatim>\<open>handle_mode_d_research\<close>): the prompt whose answer is bound to \<^verbatim>\<open>final\<close>.
\<close>

definition research_final_prompt_lit0 :: pystr where
  "research_final_prompt_lit0 = [
    0x0A, 0xC544, 0xB798, 0xB294, 0x20, 0xC6F9, 0xC5D0, 0xC11C, 0x20, 0xC870, 0xC0AC, 0xB41C,
    0x20, 0xB0B4, 0xC6A9, 0xC774, 0xC57C, 0x2E, 0x0A, 0x0A, 0x5B, 0xC870, 0xC0AC, 0x20,
    0xB0B4, 0xC6A9, 0x5D, 0x0A]"

definition research_final_prompt_lit1 :: pystr where
  "research_final_prompt_lit1 = [
    0x0A, 0x0A, 0xC774, 0x20, 0xB0B4, 0xC6A9, 0xC744, 0x20, 0xACE0, 0xB4F1, 0xD559, 0xC0DD,
    0xC774, 0x20, 0xC774, 0xD574, 0xD558, 0xAE30, 0x20, 0xC26C, 0xC6B4, 0x20, 0xC218, 0xC900,
    0xC73C, 0xB85C, 0x2C, 0x0A, 0x2D, 0x20, 0xC18C, 0xC81C, 0xBAA9, 0x20, 0x33, 0x7E,
    0x35, 0xAC1C, 0x0A, 0x2D, 0x20, 0xAC01, 0x20, 0xC18C, 0xC81C, 0xBAA9, 0x20, 0xC544,
    0xB798, 0x20, 0x62, 0x75, 0x6C, 0x6C, 0x65, 0x74, 0x20, 0x32, 0x7E, 0x34,
    0xAC1C, 0x0A, 0x0A, 0xD615, 0xD0DC, 0xB85C, 0x20, 0xD55C, 0xAD6D, 0xC5B4, 0xB85C, 0x20,
    0xC815, 0xB9AC, 0xD574, 0xC918, 0x2E, 0x0A, 0xB108, 0xBB34, 0x20, 0xC5B4, 0xB824, 0xC6B4,
    0x20, 0xC804, 0xBB38, 0x20, 0xC6A9, 0xC5B4, 0xB294, 0x20, 0xAC04, 0xB2E8, 0xD55C, 0x20,
    0xC124, 0xBA85, 0xC744, 0x20, 0xD568, 0xAED8, 0x20, 0xBD99, 0xC5EC, 0xC918, 0x2E, 0x0A]"

definition research_final_prompt :: "pystr \<Rightarrow> pystr" where
  "research_final_prompt px_answer = research_final_prompt_lit0 @ px_answer @ research_final_prompt_lit1"

text \<open>
  Lines 687--690 (\<^verbatim>\<open>chat\<close>): the detail text of the HTTP failure.
\<close>

definition error_detail_lit0 :: pystr where
  "error_detail_lit0 = [
    0xC11C, 0xBC84, 0x20, 0xB0B4, 0xBD80, 0x20, 0xC624, 0xB958, 0xAC00, 0x20, 0xBC1C, 0xC0DD,
    0xD588, 0xC2B5, 0xB2C8, 0xB2E4, 0x28, 0x41, 0x49, 0x20, 0xD638, 0xCD9C, 0x20, 0xB610,
    0xB294, 0x20, 0xCC98, 0xB9AC, 0x20, 0xC911, 0x20, 0xBB38, 0xC81C, 0x29, 0x3A, 0x20]"

definition error_detail :: "pystr \<Rightarrow> pystr" where
  "error_detail e = error_detail_lit0 @ e"

section \<open>Orchestration per mode (lines 341--630)\<close>

text \<open>
  The value bound to a variable by a provider call is a text or \<^verbatim>\<open>None\<close>; where the next
  f-string interpolates it, it is formatted (\<open>format_value\<close>). \<^verbatim>\<open>user_input\<close> and
  \<^verbatim>\<open>previous_answer\<close> are texts where the handlers are called.
\<close>

definition handle_mode_a_plan :: "providers \<Rightarrow> pystr \<Rightarrow> pystr option io" where
  "handle_mode_a_plan P user_input =
     py_bind (call_perplexity P (plan_bg_prompt user_input)) (\<lambda>bg.
     py_bind (call_gpt P (plan_ideas_prompt user_input (format_value bg))) (\<lambda>ideas.
     py_bind (call_gemini P
        (plan_plan_prompt user_input (format_value bg) (format_value ideas))) (\<lambda>plan.
     py_return plan)))"

definition handle_mode_a_report :: "providers \<Rightarrow> pystr \<Rightarrow> pystr \<Rightarrow> pystr option io" where
  "handle_mode_a_report P user_input previous_answer =
     py_bind (call_gemini P (report_outline_prompt previous_answer user_input)) (\<lambda>outline.
     py_bind (call_claude P (report_final_prompt (format_value outline))) (\<lambda>final_report.
     py_return final_report))"

definition handle_mode_b_essay :: "providers \<Rightarrow> pystr \<Rightarrow> pystr option io" where
  "handle_mode_b_essay P user_input =
     py_bind (call_perplexity P (essay_facts_prompt user_input)) (\<lambda>facts.
     py_bind (call_gpt P (essay_draft_prompt user_input (format_value facts))) (\<lambda>draft.
     py_bind (call_gemini P (essay_checked_prompt (format_value draft))) (\<lambda>checked.
     py_bind (call_claude P (essay_final_prompt (format_value checked))) (\<lambda>final.
     py_return final))))"

definition handle_mode_c_ideas :: "providers \<Rightarrow> pystr \<Rightarrow> pystr option io" where
  "handle_mode_c_ideas P user_input =
     py_bind (call_gpt P (ideas_raw_prompt user_input)) (\<lambda>raw_ideas.
     py_bind (call_gemini P
        (ideas_refined_prompt user_input (format_value raw_ideas))) (\<lambda>refined.
     py_bind (call_claude P (ideas_final_prompt (format_value refined))) (\<lambda>final.
     py_return final)))"

definition handle_mode_d_research :: "providers \<Rightarrow> pystr \<Rightarrow> pystr option io" where
  "handle_mode_d_research P user_input =
     py_bind (call_perplexity P (research_px_prompt user_input)) (\<lambda>px_answer.
     py_bind (call_gemini P (research_final_prompt (format_value px_answer))) (\<lambda>final.
     py_return final))"

section \<open>The endpoint (lines 258--264 and 637--690)\<close>

text \<open>
  \<^verbatim>\<open>ChatRequest\<close> and \<^verbatim>\<open>ChatResponse\<close> are pydantic models: building one validates its
  fields and raises a validation error if a field does not fit its annotation. A
  \<^verbatim>\<open>ChatRequest\<close> therefore always carries one of the four modes; the endpoint receives the
  request as the framework built it from the body that was sent.
\<close>

record ChatRequest =
  mode :: ModeType
  user_input :: pystr

record ChatResponse =
  answer :: pystr

record HTTPException =
  status_code :: nat
  detail :: pystr

datatype validation_error = ValidationError pystr

text \<open>
  \<^verbatim>\<open>ChatRequest(mode=m, user_input=u)\<close> for two texts: the mode must be one of the four
  literals. The error keeps the rejected input.
\<close>

definition ChatRequest_validate :: "pystr \<Rightarrow> pystr \<Rightarrow> validation_error + ChatRequest" where
  "ChatRequest_validate m u =
     (case ModeType_validate m of
        None \<Rightarrow> Inl (ValidationError m)
      | Some md \<Rightarrow> Inr \<lparr>mode = md, user_input = u\<rparr>)"

text \<open>
  \<^verbatim>\<open>ChatResponse(answer=answer)\<close>, line 682: \<^verbatim>\<open>answer: str\<close> does not accept
  \<^verbatim>\<open>None\<close>; the exception raised then is caught by line 684 like any other.
\<close>

definition ChatResponse_validate :: "providers \<Rightarrow> pystr option \<Rightarrow> ChatResponse io" where
  "ChatResponse_validate P a s =
     (case a of
        Some t \<Rightarrow> (Inr \<lparr>answer = t\<rparr>, s)
      | None \<Rightarrow> (Inl (Exception (response_error_text P)), s))"

text \<open>The fixed notice of lines 657--664 (adjacent string literals, joined).\<close>

definition guidance_message :: pystr where
  "guidance_message = [
    0x5B, 0xC54C, 0xB9BC, 0x5D, 0x20, 0xC544, 0xC9C1, 0x20, 0x31, 0xB2E8, 0xACC4, 0x20,
    0xD0D0, 0xAD6C, 0x20, 0xBC29, 0xD5A5, 0x2F, 0xACC4, 0xD68D, 0xC774, 0x20, 0xC800, 0xC7A5,
    0xB418, 0xC5B4, 0x20, 0xC788, 0xC9C0, 0x20, 0xC54A, 0xC2B5, 0xB2C8, 0xB2E4, 0x2E, 0x0A,
    0xBA3C, 0xC800, 0x20, 0xAC19, 0xC740, 0x20, 0xC8FC, 0xC81C, 0xB85C, 0x20, 0x41, 0x20,
    0xBAA8, 0xB4DC, 0xC5D0, 0xC11C, 0x20, 0xD0D0, 0xAD6C, 0x20, 0xBC29, 0xD5A5, 0xC744, 0x20,
    0xC694, 0xCCAD, 0xD574, 0x20, 0xC8FC, 0xC138, 0xC694, 0x2E, 0x0A, 0x0A, 0xC608, 0xC2DC,
    0x3A, 0x0A, 0x41, 0x20, 0xBAA8, 0xB4DC, 0xC5D0, 0xC11C, 0x0A, 0x20, 0x20, 0x22,
    0xBBF8, 0xC138, 0xD50C, 0xB77C, 0xC2A4, 0xD2F1, 0xACFC, 0x20, 0xC218, 0xC9C8, 0x20, 0xC624,
    0xC5FC, 0xC744, 0x20, 0xC8FC, 0xC81C, 0xB85C, 0x20, 0xACFC, 0xD559, 0x20, 0xD0D0, 0xAD6C,
    0x20, 0xBC29, 0xD5A5, 0xC744, 0x20, 0xC124, 0xACC4, 0xD574, 0xC918, 0x22, 0x20, 0xB77C,
    0xACE0, 0x20, 0xBA3C, 0xC800, 0x20, 0xC694, 0xCCAD, 0xD55C, 0x20, 0xB4A4, 0x2C, 0x0A,
    0x20, 0x20, 0xADF8, 0x20, 0xB2E4, 0xC74C, 0xC5D0, 0x20, 0x22, 0xC774, 0xC81C, 0x20,
    0xC704, 0xC5D0, 0xC11C, 0x20, 0xCD94, 0xCC9C, 0xD55C, 0x20, 0x32, 0xBC88, 0x20, 0xBC29,
    0xD5A5, 0xC73C, 0xB85C, 0x20, 0xD0D0, 0xAD6C, 0x20, 0xBCF4, 0xACE0, 0xC11C, 0x20, 0xC791,
    0xC131, 0xD574, 0xC918, 0x22, 0x20, 0xB77C, 0xACE0, 0x20, 0xC694, 0xCCAD, 0xD558, 0xBA74,
    0x20, 0xB429, 0xB2C8, 0xB2E4, 0x2E]"

text \<open>
  The body of the \<^verbatim>\<open>try\<close> block, lines 649--680, up to the value of \<^verbatim>\<open>answer\<close>.
  The assignment to \<^verbatim>\<open>last_plan_for_a\<close> (line 670) is reached only when
  \<^verbatim>\<open>handle_mode_a_plan\<close> has returned, and stores what it returned. The last branch is a
  plain \<^verbatim>\<open>else\<close>, taken for mode "D".
\<close>

definition chat_try :: "providers \<Rightarrow> ChatRequest \<Rightarrow> pystr option io" where
  "chat_try P req s =
     (if mode req = A then
        (let text = user_input req;
             want_report = is_report_request text
         in if want_report then
              (case last_plan_for_a s of
                 None \<Rightarrow> (Inr (Some guidance_message), s)
               | Some previous_answer \<Rightarrow>
                   handle_mode_a_report P (user_input req) previous_answer s)
            else
              (case handle_mode_a_plan P (user_input req) s of
                 (Inl e, s') \<Rightarrow> (Inl e, s')
               | (Inr plan, s') \<Rightarrow> (Inr plan, s'\<lparr>last_plan_for_a := plan\<rparr>)))
      else if mode req = B then handle_mode_b_essay P (user_input req) s
      else if mode req = C then handle_mode_c_ideas P (user_input req) s
      else handle_mode_d_research P (user_input req) s)"

text \<open>
  \<^verbatim>\<open>chat\<close>: the answer is wrapped in a \<^verbatim>\<open>ChatResponse\<close> (line 682); any exception raised
  up to there becomes an \<^verbatim>\<open>HTTPException\<close> with status 500 whose detail ends in
  \<^verbatim>\<open>str(e)\<close> (lines 684--690).
\<close>

definition chat :: "providers \<Rightarrow> ChatRequest \<Rightarrow> state \<Rightarrow> (HTTPException + ChatResponse) \<times> state" where
  "chat P req s =
     (case py_bind (chat_try P req) (ChatResponse_validate P) s of
        (Inr response, s') \<Rightarrow> (Inr response, s')
      | (Inl e, s') \<Rightarrow> (Inl \<lparr>status_code = 500, detail = error_detail (describe e)\<rparr>, s'))"

text \<open>
  The route \<^verbatim>\<open>POST /chat\<close> (line 637) as it is served: the framework builds the
  \<^verbatim>\<open>ChatRequest\<close> from the mode and the text sent, and calls \<^verbatim>\<open>chat\<close> only if that
  succeeds.
\<close>

definition post_chat ::
  "providers \<Rightarrow> pystr \<Rightarrow> pystr \<Rightarrow> state \<Rightarrow>
   (validation_error + (HTTPException + ChatResponse)) \<times> state" where
  "post_chat P m u s =
     (case ChatRequest_validate m u of
        Inl v \<Rightarrow> (Inl v, s)
      | Inr req \<Rightarrow> (case chat P req s of (r, s') \<Rightarrow> (Inr r, s')))"

section \<open>Notions used to state the properties\<close>

text \<open>The answer a provider gives to a recorded call, as the value \<^verbatim>\<open>call_...\<close> returns.\<close>

definition respond :: "providers \<Rightarrow> provider \<times> pystr \<Rightarrow> py_exception + pystr option" where
  "respond P c =
     (case fst c of
        GPT \<Rightarrow> openai_client P (snd c)
      | Gemini \<Rightarrow> gemini_client P (snd c)
      | Claude \<Rightarrow>
          (case anthropic_client P (snd c) of Inl e \<Rightarrow> Inl e | Inr joined \<Rightarrow> Inr (Some joined))
      | Perplexity \<Rightarrow> perplexity_client P (snd c))"

text \<open>A call succeeded if the client returned, whatever it returned.\<close>

definition succeeded :: "providers \<Rightarrow> provider \<times> pystr \<Rightarrow> bool" where
  "succeeded P c = (case respond P c of Inr out \<Rightarrow> True | Inl e \<Rightarrow> False)"

text \<open>The provider calls made between two states.\<close>

definition new_calls :: "state \<Rightarrow> state \<Rightarrow> (provider \<times> pystr) list" where
  "new_calls s s' = drop (length (calls s)) (calls s')"

text \<open>
  \<open>embeds_all_prior P prior cs\<close>: along the calls \<open>cs\<close>, every prompt contains every text
  of \<open>prior\<close> and the output, as formatted, of every earlier call of \<open>cs\<close>.
\<close>

fun embeds_all_prior :: "providers \<Rightarrow> pystr list \<Rightarrow> (provider \<times> pystr) list \<Rightarrow> bool" where
  "embeds_all_prior P prior [] = True"
| "embeds_all_prior P prior (c # cs) =
     (list_all (\<lambda>x. str_in x (snd c)) prior \<and>
      (case respond P c of
         Inr out \<Rightarrow> embeds_all_prior P (prior @ [format_value out]) cs
       | Inl e \<Rightarrow> embeds_all_prior P prior cs))"

text \<open>
  \<open>embeds_previous P prev cs\<close>: the first prompt of \<open>cs\<close> contains \<open>prev\<close>, and every later
  prompt contains the output, as formatted, of the call just before it; no call follows one
  that raised.
\<close>

fun embeds_previous :: "providers \<Rightarrow> pystr \<Rightarrow> (provider \<times> pystr) list \<Rightarrow> bool" where
  "embeds_previous P prev [] = True"
| "embeds_previous P prev (c # cs) =
     (str_in prev (snd c) \<and>
      (case respond P c of
         Inr out \<Rightarrow> embeds_previous P (format_value out) cs
       | Inl e \<Rightarrow> cs = []))"

text \<open>
  Providers that answer with fixed texts; providers whose Gemini client raises; providers
  whose Gemini client returns \<^verbatim>\<open>None\<close>; the state at start.
\<close>

definition fixed_providers :: "pystr \<Rightarrow> pystr \<Rightarrow> pystr \<Rightarrow> pystr \<Rightarrow> providers" where
  "fixed_providers px gpt gem cl =
     \<lparr>openai_client = (\<lambda>prompt. Inr (Some gpt)),
      gemini_client = (\<lambda>prompt. Inr (Some gem)),
      anthropic_client = (\<lambda>prompt. Inr cl),
      perplexity_client = (\<lambda>prompt. Inr (Some px)),
      response_error_text = ascii ''answer: Input should be a valid string''\<rparr>"

definition gemini_down :: "pystr \<Rightarrow> providers" where
  "gemini_down msg =
     \<lparr>openai_client = (\<lambda>prompt. Inr (Some (ascii ''DRAFT''))),
      gemini_client = (\<lambda>prompt. Inl (Exception msg)),
      anthropic_client = (\<lambda>prompt. Inr (ascii ''FINAL'')),
      perplexity_client = (\<lambda>prompt. Inr (Some (ascii ''FACTS''))),
      response_error_text = ascii ''answer: Input should be a valid string''\<rparr>"

definition gemini_silent :: providers where
  "gemini_silent =
     \<lparr>openai_client = (\<lambda>prompt. Inr (Some (ascii ''IDEAS''))),
      gemini_client = (\<lambda>prompt. Inr None),
      anthropic_client = (\<lambda>prompt. Inr (ascii ''REPORT'')),
      perplexity_client = (\<lambda>prompt. Inr (Some (ascii ''BG''))),
      response_error_text = ascii ''answer: Input should be a valid string''\<rparr>"

definition initial_state :: state where
  "initial_state = \<lparr>last_plan_for_a = None, calls = []\<rparr>"

section \<open>Substring search\<close>

lemma str_in_sublist: "str_in key t = sublist key t"
  by (induction t) (simp_all add: sublist_Cons_right)

lemma str_in_iff: "str_in key t \<longleftrightarrow> (\<exists>pre post. t = pre @ key @ post)"
  by (simp add: str_in_sublist sublist_def)

lemma str_in_appendI: "str_in key (pre @ key @ post)"
  by (auto simp: str_in_iff)

section \<open>The intent classifier\<close>

text \<open>
  Claim C4. \<^verbatim>\<open>is_report_request\<close> is a function of the text alone. It is true exactly when
  some keyword of \<^verbatim>\<open>REPORT_KEYWORDS\<close> occurs in the text as a contiguous run of code points,
  compared exactly; so it is true for every text that has a keyword inside a longer word,
  whatever stands before and after it.
\<close>

theorem is_report_request_iff:
  "(is_report_request t \<longleftrightarrow>
      (\<exists>keyword \<in> set REPORT_KEYWORDS. \<exists>pre post. t = pre @ keyword @ post)) \<and>
   (\<forall>keyword \<in> set REPORT_KEYWORDS. \<forall>pre post. is_report_request (pre @ keyword @ post))"
proof
  show iff: "is_report_request t \<longleftrightarrow>
      (\<exists>keyword \<in> set REPORT_KEYWORDS. \<exists>pre post. t = pre @ keyword @ post)" for t
    unfolding is_report_request_def list_ex_iff str_in_iff ..
  show "\<forall>keyword \<in> set REPORT_KEYWORDS. \<forall>pre post. is_report_request (pre @ keyword @ post)"
    unfolding iff by blast
qed

theorem is_report_request_iff_witness:
  "is_report_request (ascii ''un'' @ [0xBCF4, 0xACE0, 0xC11C] @ ascii ''ed'') \<and>
   \<not> is_report_request (ascii ''report'')"
proof
  have "[0xBCF4, 0xACE0, 0xC11C] \<in> set REPORT_KEYWORDS"
    by (simp add: REPORT_KEYWORDS_def)
  with is_report_request_iff [of "[]"]
  show "is_report_request (ascii ''un'' @ [0xBCF4, 0xACE0, 0xC11C] @ ascii ''ed'')"
    by blast
  show "\<not> is_report_request (ascii ''report'')"
    by (simp add: is_report_request_def REPORT_KEYWORDS_def ascii_def)
qed

section \<open>The two-phase mode\<close>

lemmas call_defs = call_gpt_def call_gemini_def call_claude_def call_perplexity_def

lemmas handler_defs =
  handle_mode_a_plan_def handle_mode_a_report_def handle_mode_b_essay_def
  handle_mode_c_ideas_def handle_mode_d_research_def py_bind_def py_return_def call_defs
  ChatResponse_validate_def format_value_def

text \<open>
  Claim C1. A request of mode "A" whose text is not a report request, served by providers
  that answer, makes exactly three provider calls, in the order search (Perplexity),
  reasoning (GPT), synthesis (Gemini); the stored plan becomes the output of the synthesis
  call, and that same output is the answer.
\<close>

theorem plan_branch:
  assumes "mode req = A"
    and "\<not> is_report_request (user_input req)"
    and "perplexity_client P (plan_bg_prompt (user_input req)) = Inr (Some bg)"
    and "openai_client P (plan_ideas_prompt (user_input req) bg) = Inr (Some ideas)"
    and "gemini_client P (plan_plan_prompt (user_input req) bg ideas) = Inr (Some plan)"
  shows "chat P req s =
    (Inr \<lparr>answer = plan\<rparr>,
     s\<lparr>calls := calls s @
          [(Perplexity, plan_bg_prompt (user_input req)),
           (GPT, plan_ideas_prompt (user_input req) bg),
           (Gemini, plan_plan_prompt (user_input req) bg ideas)],
       last_plan_for_a := Some plan\<rparr>)"
  using assms by (simp add: chat_def chat_try_def handler_defs)

theorem plan_branch_witness:
  "\<not> is_report_request (ascii ''pollution'') \<and>
   chat (fixed_providers (ascii ''BG'') (ascii ''IDEAS'') (ascii ''PLAN_OUT'') (ascii ''REPORT''))
     \<lparr>mode = A, user_input = ascii ''pollution''\<rparr> initial_state =
    (Inr \<lparr>answer = ascii ''PLAN_OUT''\<rparr>,
     \<lparr>last_plan_for_a = Some (ascii ''PLAN_OUT''),
      calls = [(Perplexity, plan_bg_prompt (ascii ''pollution'')),
               (GPT, plan_ideas_prompt (ascii ''pollution'') (ascii ''BG'')),
               (Gemini, plan_plan_prompt (ascii ''pollution'') (ascii ''BG'') (ascii ''IDEAS''))]\<rparr>)"
proof -
  have no: "\<not> is_report_request (ascii ''pollution'')"
    by (simp add: is_report_request_def REPORT_KEYWORDS_def ascii_def)
  show ?thesis
    using no plan_branch [of "\<lparr>mode = A, user_input = ascii ''pollution''\<rparr>"
        "fixed_providers (ascii ''BG'') (ascii ''IDEAS'') (ascii ''PLAN_OUT'') (ascii ''REPORT'')"
        "ascii ''BG''" "ascii ''IDEAS''" "ascii ''PLAN_OUT''" initial_state]
    by (simp add: fixed_providers_def initial_state_def)
qed

text \<open>
  Claim C2. A request of mode "A" whose text is a report request, with a plan \<open>X\<close> stored and
  providers that answer, makes exactly two provider calls, synthesis (Gemini) then long-form
  (Claude); the prompt of the synthesis call contains \<open>X\<close>; the answer is the output of the
  long-form call; the stored plan is still \<open>X\<close>.
\<close>

theorem report_branch:
  assumes "mode req = A"
    and "is_report_request (user_input req)"
    and "last_plan_for_a s = Some X"
    and "gemini_client P (report_outline_prompt X (user_input req)) = Inr (Some outline)"
    and "anthropic_client P (report_final_prompt outline) = Inr final_report"
  shows "chat P req s =
    (Inr \<lparr>answer = final_report\<rparr>,
     s\<lparr>calls := calls s @
          [(Gemini, report_outline_prompt X (user_input req)),
           (Claude, report_final_prompt outline)]\<rparr>) \<and>
    str_in X (report_outline_prompt X (user_input req)) \<and>
    last_plan_for_a (snd (chat P req s)) = Some X"
proof -
  have run: "chat P req s =
    (Inr \<lparr>answer = final_report\<rparr>,
     s\<lparr>calls := calls s @
          [(Gemini, report_outline_prompt X (user_input req)),
           (Claude, report_final_prompt outline)]\<rparr>)"
    using assms by (simp add: chat_def chat_try_def handler_defs)
  have "str_in X (report_outline_prompt X (user_input req))"
    unfolding report_outline_prompt_def by (rule str_in_appendI)
  with run assms(3) show ?thesis by simp
qed

theorem report_branch_witness:
  "is_report_request [0xC791, 0xC131, 0xD574] \<and>
   chat (fixed_providers (ascii ''BG'') (ascii ''IDEAS'') (ascii ''OUTLINE'') (ascii ''REPORT''))
     \<lparr>mode = A, user_input = [0xC791, 0xC131, 0xD574]\<rparr>
     \<lparr>last_plan_for_a = Some (ascii ''X''), calls = []\<rparr> =
    (Inr \<lparr>answer = ascii ''REPORT''\<rparr>,
     \<lparr>last_plan_for_a = Some (ascii ''X''),
      calls = [(Gemini, report_outline_prompt (ascii ''X'') [0xC791, 0xC131, 0xD574]),
               (Claude, report_final_prompt (ascii ''OUTLINE''))]\<rparr>) \<and>
   str_in (ascii ''X'') (report_outline_prompt (ascii ''X'') [0xC791, 0xC131, 0xD574])"
proof -
  have yes: "is_report_request [0xC791, 0xC131, 0xD574]"
    by (simp add: is_report_request_def REPORT_KEYWORDS_def)
  show ?thesis
    using yes report_branch [of "\<lparr>mode = A, user_input = [0xC791, 0xC131, 0xD574]\<rparr>"
        "\<lparr>last_plan_for_a = Some (ascii ''X''), calls = []\<rparr>" "ascii ''X''"
        "fixed_providers (ascii ''BG'') (ascii ''IDEAS'') (ascii ''OUTLINE'') (ascii ''REPORT'')"
        "ascii ''OUTLINE''" "ascii ''REPORT''"]
    by (simp add: fixed_providers_def)
qed

text \<open>
  Claim C3. A request of mode "A" whose text is a report request, with no plan stored, is
  answered with the fixed notice; no provider is called and the store stays empty.
\<close>

theorem report_without_plan:
  assumes "mode req = A"
    and "is_report_request (user_input req)"
    and "last_plan_for_a s = None"
  shows "chat P req s = (Inr \<lparr>answer = guidance_message\<rparr>, s) \<and>
    new_calls s (snd (chat P req s)) = [] \<and>
    last_plan_for_a (snd (chat P req s)) = None"
  using assms by (simp add: chat_def chat_try_def new_calls_def handler_defs)

theorem report_without_plan_witness:
  "is_report_request [0xBCF4, 0xACE0, 0xC11C] \<and>
   chat (fixed_providers (ascii ''BG'') (ascii ''IDEAS'') (ascii ''OUTLINE'') (ascii ''REPORT''))
     \<lparr>mode = A, user_input = [0xBCF4, 0xACE0, 0xC11C]\<rparr> initial_state =
     (Inr \<lparr>answer = guidance_message\<rparr>, initial_state)"
proof -
  have yes: "is_report_request [0xBCF4, 0xACE0, 0xC11C]"
    by (simp add: is_report_request_def REPORT_KEYWORDS_def)
  show ?thesis
    using yes report_without_plan [of "\<lparr>mode = A, user_input = [0xBCF4, 0xACE0, 0xC11C]\<rparr>"
        initial_state
        "fixed_providers (ascii ''BG'') (ascii ''IDEAS'') (ascii ''OUTLINE'') (ascii ''REPORT'')"]
    by (simp add: initial_state_def)
qed

section \<open>The single-pipeline modes\<close>

text \<open>
  Claim C6. With providers that answer, mode "B" calls search (Perplexity), reasoning (GPT),
  synthesis (Gemini), long-form (Claude), in this order; mode "C" calls reasoning, synthesis,
  long-form; mode "D" calls search, synthesis. Each call gets the prompt built by the source's
  template, and the answer is the output of the last call, unchanged.
\<close>

theorem fixed_pipelines:
  "(mode req = B \<longrightarrow>
      perplexity_client P (essay_facts_prompt (user_input req)) = Inr (Some facts) \<longrightarrow>
      openai_client P (essay_draft_prompt (user_input req) facts) = Inr (Some draft) \<longrightarrow>
      gemini_client P (essay_checked_prompt draft) = Inr (Some checked) \<longrightarrow>
      anthropic_client P (essay_final_prompt checked) = Inr final \<longrightarrow>
      chat P req s =
        (Inr \<lparr>answer = final\<rparr>,
         s\<lparr>calls := calls s @
              [(Perplexity, essay_facts_prompt (user_input req)),
               (GPT, essay_draft_prompt (user_input req) facts),
               (Gemini, essay_checked_prompt draft),
               (Claude, essay_final_prompt checked)]\<rparr>)) \<and>
   (mode req = C \<longrightarrow>
      openai_client P (ideas_raw_prompt (user_input req)) = Inr (Some raw_ideas) \<longrightarrow>
      gemini_client P (ideas_refined_prompt (user_input req) raw_ideas) = Inr (Some refined) \<longrightarrow>
      anthropic_client P (ideas_final_prompt refined) = Inr final \<longrightarrow>
      chat P req s =
        (Inr \<lparr>answer = final\<rparr>,
         s\<lparr>calls := calls s @
              [(GPT, ideas_raw_prompt (user_input req)),
               (Gemini, ideas_refined_prompt (user_input req) raw_ideas),
               (Claude, ideas_final_prompt refined)]\<rparr>)) \<and>
   (mode req = D \<longrightarrow>
      perplexity_client P (research_px_prompt (user_input req)) = Inr (Some px_answer) \<longrightarrow>
      gemini_client P (research_final_prompt px_answer) = Inr (Some final) \<longrightarrow>
      chat P req s =
        (Inr \<lparr>answer = final\<rparr>,
         s\<lparr>calls := calls s @
              [(Perplexity, research_px_prompt (user_input req)),
               (Gemini, research_final_prompt px_answer)]\<rparr>))"
proof (intro conjI impI)
  assume "mode req = B"
    "perplexity_client P (essay_facts_prompt (user_input req)) = Inr (Some facts)"
    "openai_client P (essay_draft_prompt (user_input req) facts) = Inr (Some draft)"
    "gemini_client P (essay_checked_prompt draft) = Inr (Some checked)"
    "anthropic_client P (essay_final_prompt checked) = Inr final"
  then show "chat P req s =
        (Inr \<lparr>answer = final\<rparr>,
         s\<lparr>calls := calls s @
              [(Perplexity, essay_facts_prompt (user_input req)),
               (GPT, essay_draft_prompt (user_input req) facts),
               (Gemini, essay_checked_prompt draft),
               (Claude, essay_final_prompt checked)]\<rparr>)"
    by (simp add: chat_def chat_try_def handler_defs)
next
  assume "mode req = C"
    "openai_client P (ideas_raw_prompt (user_input req)) = Inr (Some raw_ideas)"
    "gemini_client P (ideas_refined_prompt (user_input req) raw_ideas) = Inr (Some refined)"
    "anthropic_client P (ideas_final_prompt refined) = Inr final"
  then show "chat P req s =
        (Inr \<lparr>answer = final\<rparr>,
         s\<lparr>calls := calls s @
              [(GPT, ideas_raw_prompt (user_input req)),
               (Gemini, ideas_refined_prompt (user_input req) raw_ideas),
               (Claude, ideas_final_prompt refined)]\<rparr>)"
    by (simp add: chat_def chat_try_def handler_defs)
next
  assume "mode req = D"
    "perplexity_client P (research_px_prompt (user_input req)) = Inr (Some px_answer)"
    "gemini_client P (research_final_prompt px_answer) = Inr (Some final)"
  then show "chat P req s =
        (Inr \<lparr>answer = final\<rparr>,
         s\<lparr>calls := calls s @
              [(Perplexity, research_px_prompt (user_input req)),
               (Gemini, research_final_prompt px_answer)]\<rparr>)"
    by (simp add: chat_def chat_try_def handler_defs)
qed

theorem fixed_pipelines_witness:
  "chat (fixed_providers (ascii ''FACTS'') (ascii ''DRAFT'') (ascii ''CHECKED'') (ascii ''FINAL''))
     \<lparr>mode = B, user_input = ascii ''pollution''\<rparr> initial_state =
     (Inr \<lparr>answer = ascii ''FINAL''\<rparr>,
      \<lparr>last_plan_for_a = None,
       calls = [(Perplexity, essay_facts_prompt (ascii ''pollution'')),
                (GPT, essay_draft_prompt (ascii ''pollution'') (ascii ''FACTS'')),
                (Gemini, essay_checked_prompt (ascii ''DRAFT'')),
                (Claude, essay_final_prompt (ascii ''CHECKED''))]\<rparr>) \<and>
   chat (fixed_providers (ascii ''FACTS'') (ascii ''DRAFT'') (ascii ''CHECKED'') (ascii ''FINAL''))
     \<lparr>mode = C, user_input = ascii ''pollution''\<rparr> initial_state =
     (Inr \<lparr>answer = ascii ''FINAL''\<rparr>,
      \<lparr>last_plan_for_a = None,
       calls = [(GPT, ideas_raw_prompt (ascii ''pollution'')),
                (Gemini, ideas_refined_prompt (ascii ''pollution'') (ascii ''DRAFT'')),
                (Claude, ideas_final_prompt (ascii ''CHECKED''))]\<rparr>) \<and>
   chat (fixed_providers (ascii ''FACTS'') (ascii ''DRAFT'') (ascii ''CHECKED'') (ascii ''FINAL''))
     \<lparr>mode = D, user_input = ascii ''pollution''\<rparr> initial_state =
     (Inr \<lparr>answer = ascii ''CHECKED''\<rparr>,
      \<lparr>last_plan_for_a = None,
       calls = [(Perplexity, research_px_prompt (ascii ''pollution'')),
                (Gemini, research_final_prompt (ascii ''FACTS''))]\<rparr>)"
  using
    fixed_pipelines [of "\<lparr>mode = B, user_input = ascii ''pollution''\<rparr>"
      "fixed_providers (ascii ''FACTS'') (ascii ''DRAFT'') (ascii ''CHECKED'') (ascii ''FINAL'')"
      "ascii ''FACTS''" "ascii ''DRAFT''" "ascii ''CHECKED''" "ascii ''FINAL''" initial_state]
    fixed_pipelines [of "\<lparr>mode = C, user_input = ascii ''pollution''\<rparr>"
      "fixed_providers (ascii ''FACTS'') (ascii ''DRAFT'') (ascii ''CHECKED'') (ascii ''FINAL'')"
      _ _ "ascii ''CHECKED''" "ascii ''FINAL''" initial_state "ascii ''DRAFT''" "ascii ''CHECKED''"]
    fixed_pipelines [of "\<lparr>mode = D, user_input = ascii ''pollution''\<rparr>"
      "fixed_providers (ascii ''FACTS'') (ascii ''DRAFT'') (ascii ''CHECKED'') (ascii ''FINAL'')"
      _ _ _ "ascii ''CHECKED''" initial_state _ _ "ascii ''FACTS''"]
  by (simp add: fixed_providers_def initial_state_def)

text \<open>Outside mode "A" the state enters \<open>chat_try\<close> only through the call record.\<close>

lemma handle_mode_b_essay_frame:
  "last_plan_for_a (snd (handle_mode_b_essay P u s)) = last_plan_for_a s \<and>
   fst (handle_mode_b_essay P u s) = fst (handle_mode_b_essay P u t) \<and>
   new_calls s (snd (handle_mode_b_essay P u s)) = new_calls t (snd (handle_mode_b_essay P u t))"
  by (simp add: handler_defs new_calls_def split: sum.splits)

lemma handle_mode_c_ideas_frame:
  "last_plan_for_a (snd (handle_mode_c_ideas P u s)) = last_plan_for_a s \<and>
   fst (handle_mode_c_ideas P u s) = fst (handle_mode_c_ideas P u t) \<and>
   new_calls s (snd (handle_mode_c_ideas P u s)) = new_calls t (snd (handle_mode_c_ideas P u t))"
  by (simp add: handler_defs new_calls_def split: sum.splits)

lemma handle_mode_d_research_frame:
  "last_plan_for_a (snd (handle_mode_d_research P u s)) = last_plan_for_a s \<and>
   fst (handle_mode_d_research P u s) = fst (handle_mode_d_research P u t) \<and>
   new_calls s (snd (handle_mode_d_research P u s)) = new_calls t (snd (handle_mode_d_research P u t))"
  by (simp add: handler_defs new_calls_def split: sum.splits)

lemma chat_try_frame:
  assumes "mode req \<noteq> A"
  shows "last_plan_for_a (snd (chat_try P req s)) = last_plan_for_a s \<and>
   fst (chat_try P req s) = fst (chat_try P req t) \<and>
   new_calls s (snd (chat_try P req s)) = new_calls t (snd (chat_try P req t))"
  using assms handle_mode_b_essay_frame [of P "user_input req" s t]
    handle_mode_c_ideas_frame [of P "user_input req" s t]
    handle_mode_d_research_frame [of P "user_input req" s t]
  by (simp add: chat_try_def)

lemma chat_fst: "fst (chat P req s) =
  (case fst (chat_try P req s) of
     Inr (Some a) \<Rightarrow> Inr \<lparr>answer = a\<rparr>
   | Inr None \<Rightarrow>
       Inl \<lparr>status_code = 500, detail = error_detail (response_error_text P)\<rparr>
   | Inl e \<Rightarrow> Inl \<lparr>status_code = 500, detail = error_detail (describe e)\<rparr>)"
  by (simp add: chat_def py_bind_def ChatResponse_validate_def
      split: prod.splits sum.splits option.splits)

lemma chat_snd: "snd (chat P req s) = snd (chat_try P req s)"
  by (simp add: chat_def py_bind_def ChatResponse_validate_def
      split: prod.splits sum.splits option.splits)

text \<open>
  Claim C7. A request of mode "B", "C" or "D" does not write the stored plan, and does not
  read it: the answer and the provider calls are the same whatever plan is stored. Hence
  the same request served twice by the same providers gets the same answer both times.
\<close>

theorem single_pipeline_modes_ignore_plan:
  assumes "mode req \<in> {B, C, D}"
  shows "last_plan_for_a (snd (chat P req s)) = last_plan_for_a s \<and>
    fst (chat P req (s\<lparr>last_plan_for_a := x\<rparr>)) = fst (chat P req s) \<and>
    new_calls (s\<lparr>last_plan_for_a := x\<rparr>) (snd (chat P req (s\<lparr>last_plan_for_a := x\<rparr>))) =
      new_calls s (snd (chat P req s)) \<and>
    fst (chat P req (snd (chat P req s))) = fst (chat P req s)"
proof -
  from assms have notA: "mode req \<noteq> A"
    by auto
  show ?thesis
    using chat_try_frame [OF notA, of P s "s\<lparr>last_plan_for_a := x\<rparr>"]
      chat_try_frame [OF notA, of P s "snd (chat_try P req s)"]
    by (simp add: chat_fst chat_snd)
qed

theorem single_pipeline_modes_ignore_plan_witness:
  "fst (chat (fixed_providers (ascii ''FACTS'') (ascii ''DRAFT'') (ascii ''CHECKED'') (ascii ''FINAL''))
      \<lparr>mode = B, user_input = ascii ''pollution''\<rparr>
      (snd (chat (fixed_providers (ascii ''FACTS'') (ascii ''DRAFT'') (ascii ''CHECKED'') (ascii ''FINAL''))
         \<lparr>mode = B, user_input = ascii ''pollution''\<rparr> initial_state))) =
   fst (chat (fixed_providers (ascii ''FACTS'') (ascii ''DRAFT'') (ascii ''CHECKED'') (ascii ''FINAL''))
      \<lparr>mode = B, user_input = ascii ''pollution''\<rparr> initial_state) \<and>
   last_plan_for_a (snd (chat (fixed_providers (ascii ''FACTS'') (ascii ''DRAFT'') (ascii ''CHECKED'') (ascii ''FINAL''))
      \<lparr>mode = B, user_input = ascii ''pollution''\<rparr>
      \<lparr>last_plan_for_a = Some (ascii ''X''), calls = []\<rparr>)) = Some (ascii ''X'')"
  using single_pipeline_modes_ignore_plan
      [of "\<lparr>mode = B, user_input = ascii ''pollution''\<rparr>"
        "fixed_providers (ascii ''FACTS'') (ascii ''DRAFT'') (ascii ''CHECKED'') (ascii ''FINAL'')"
        initial_state]
    single_pipeline_modes_ignore_plan
      [of "\<lparr>mode = B, user_input = ascii ''pollution''\<rparr>"
        "fixed_providers (ascii ''FACTS'') (ascii ''DRAFT'') (ascii ''CHECKED'') (ascii ''FINAL'')"
        "\<lparr>last_plan_for_a = Some (ascii ''X''), calls = []\<rparr>"]
  by simp

section \<open>The calls of one request\<close>

text \<open>
  Every handler makes at least one call, calls no provider twice, stops at the first call
  that raises, and returns what its last call returned.
\<close>

lemmas trace_defs = new_calls_def succeeded_def respond_def

lemma handle_mode_a_plan_trace:
  assumes "handle_mode_a_plan P u s = (r, s')"
  shows "last_plan_for_a s' = last_plan_for_a s \<and> new_calls s s' \<noteq> [] \<and>
    distinct (map fst (new_calls s s')) \<and>
    (\<forall>c \<in> set (butlast (new_calls s s')). succeeded P c) \<and>
    respond P (last (new_calls s s')) = r"
  using assms by (auto simp: handler_defs trace_defs split: sum.splits)

lemma handle_mode_a_report_trace:
  assumes "handle_mode_a_report P u X s = (r, s')"
  shows "last_plan_for_a s' = last_plan_for_a s \<and> new_calls s s' \<noteq> [] \<and>
    distinct (map fst (new_calls s s')) \<and>
    (\<forall>c \<in> set (butlast (new_calls s s')). succeeded P c) \<and>
    respond P (last (new_calls s s')) = r"
  using assms by (auto simp: handler_defs trace_defs split: sum.splits)

lemma handle_mode_b_essay_trace:
  assumes "handle_mode_b_essay P u s = (r, s')"
  shows "last_plan_for_a s' = last_plan_for_a s \<and> new_calls s s' \<noteq> [] \<and>
    distinct (map fst (new_calls s s')) \<and>
    (\<forall>c \<in> set (butlast (new_calls s s')). succeeded P c) \<and>
    respond P (last (new_calls s s')) = r"
  using assms by (auto simp: handler_defs trace_defs split: sum.splits)

lemma handle_mode_c_ideas_trace:
  assumes "handle_mode_c_ideas P u s = (r, s')"
  shows "last_plan_for_a s' = last_plan_for_a s \<and> new_calls s s' \<noteq> [] \<and>
    distinct (map fst (new_calls s s')) \<and>
    (\<forall>c \<in> set (butlast (new_calls s s')). succeeded P c) \<and>
    respond P (last (new_calls s s')) = r"
  using assms by (auto simp: handler_defs trace_defs split: sum.splits)

lemma handle_mode_d_research_trace:
  assumes "handle_mode_d_research P u s = (r, s')"
  shows "last_plan_for_a s' = last_plan_for_a s \<and> new_calls s s' \<noteq> [] \<and>
    distinct (map fst (new_calls s s')) \<and>
    (\<forall>c \<in> set (butlast (new_calls s s')). succeeded P c) \<and>
    respond P (last (new_calls s s')) = r"
  using assms by (auto simp: handler_defs trace_defs split: sum.splits)

lemma new_calls_plan_update [simp]:
  "new_calls s (s'\<lparr>last_plan_for_a := x\<rparr>) = new_calls s s'"
  by (simp add: new_calls_def)

lemma new_calls_same [simp]: "new_calls s s = []"
  by (simp add: new_calls_def)

lemma chat_try_trace:
  assumes "chat_try P req s = (r, s')"
  shows "(new_calls s s' = [] \<and> r = Inr (Some guidance_message) \<and> s' = s) \<or>
    (new_calls s s' \<noteq> [] \<and> distinct (map fst (new_calls s s')) \<and>
     (\<forall>c \<in> set (butlast (new_calls s s')). succeeded P c) \<and>
     respond P (last (new_calls s s')) = r \<and>
     (\<forall>e. r = Inl e \<longrightarrow> last_plan_for_a s' = last_plan_for_a s))"
proof (cases "mode req = A")
  case False
  with assms show ?thesis
    using handle_mode_b_essay_trace [of P "user_input req" s r s']
      handle_mode_c_ideas_trace [of P "user_input req" s r s']
      handle_mode_d_research_trace [of P "user_input req" s r s']
    by (simp add: chat_try_def split: if_splits)
next
  case modeA: True
  show ?thesis
  proof (cases "is_report_request (user_input req)")
    case True
    show ?thesis
    proof (cases "last_plan_for_a s")
      case None
      with modeA True assms show ?thesis by (simp add: chat_try_def)
    next
      case (Some X)
      with modeA True assms show ?thesis
        using handle_mode_a_report_trace [of P "user_input req" X s r s']
        by (simp add: chat_try_def)
    qed
  next
    case False
    obtain r0 s0 where run: "handle_mode_a_plan P (user_input req) s = (r0, s0)"
      by (cases "handle_mode_a_plan P (user_input req) s")
    from handle_mode_a_plan_trace [OF run] modeA False assms run show ?thesis
      by (cases r0) (auto simp: chat_try_def)
  qed
qed

text \<open>
  Claim C10. If a provider call made for a request raises, that call is the last one made
  (every call before it returned, no provider was called twice, nothing is called after it);
  \<^verbatim>\<open>chat\<close> gives no answer but the single failure of status 500 whose detail is the fixed
  text followed by the description of the raised error; the stored plan is left as it was.
\<close>

theorem provider_failure_aborts:
  assumes "chat P req s = (r, s')"
    and "\<exists>c \<in> set (new_calls s s'). \<not> succeeded P c"
  shows "\<exists>e. respond P (last (new_calls s s')) = Inl e \<and>
      r = Inl \<lparr>status_code = 500, detail = error_detail (describe e)\<rparr> \<and>
      str_in (describe e) (error_detail (describe e)) \<and>
      (\<forall>c \<in> set (butlast (new_calls s s')). succeeded P c) \<and>
      distinct (map fst (new_calls s s')) \<and>
      last_plan_for_a s' = last_plan_for_a s"
proof -
  obtain r0 where tr: "chat_try P req s = (r0, s')"
    and r: "r = (case r0 of
           Inr (Some a) \<Rightarrow> Inr \<lparr>answer = a\<rparr>
         | Inr None \<Rightarrow>
             Inl \<lparr>status_code = 500, detail = error_detail (response_error_text P)\<rparr>
         | Inl e \<Rightarrow> Inl \<lparr>status_code = 500, detail = error_detail (describe e)\<rparr>)"
    using assms(1) chat_fst [of P req s] chat_snd [of P req s]
    by (cases "chat_try P req s") auto
  from assms(2) have ne: "new_calls s s' \<noteq> []" by auto
  with chat_try_trace [OF tr]
  have dist: "distinct (map fst (new_calls s s'))"
    and ok: "\<forall>c \<in> set (butlast (new_calls s s')). succeeded P c"
    and lst: "respond P (last (new_calls s s')) = r0"
    and keep: "\<forall>e. r0 = Inl e \<longrightarrow> last_plan_for_a s' = last_plan_for_a s"
    by auto
  from assms(2) obtain c where c: "c \<in> set (new_calls s s')" "\<not> succeeded P c" by blast
  from c(1) ne have "c \<in> set (butlast (new_calls s s')) \<or> c = last (new_calls s s')"
    by (metis append_butlast_last_id in_set_conv_decomp_first insert_iff list.simps(15)
        rotate1.simps(2) set_rotate1)
  with ok c(2) have "\<not> succeeded P (last (new_calls s s'))" by auto
  with lst obtain e where e: "r0 = Inl e"
    by (cases r0) (auto simp: succeeded_def)
  have "str_in (describe e) (error_detail (describe e))"
    unfolding error_detail_def using str_in_appendI [of "describe e" error_detail_lit0 "[]"] by simp
  with e r lst dist ok keep show ?thesis by auto
qed

theorem provider_failure_aborts_witness:
  "chat (gemini_down (ascii ''quota'')) \<lparr>mode = B, user_input = ascii ''pollution''\<rparr>
     initial_state =
     (Inl \<lparr>status_code = 500, detail = error_detail (ascii ''quota'')\<rparr>,
      \<lparr>last_plan_for_a = None,
       calls = [(Perplexity, essay_facts_prompt (ascii ''pollution'')),
                (GPT, essay_draft_prompt (ascii ''pollution'') (ascii ''FACTS'')),
                (Gemini, essay_checked_prompt (ascii ''DRAFT''))]\<rparr>) \<and>
   str_in (ascii ''quota'') (error_detail (ascii ''quota''))"
proof -
  let ?P = "gemini_down (ascii ''quota'')"
  let ?req = "\<lparr>mode = B, user_input = ascii ''pollution''\<rparr>"
  let ?s' = "\<lparr>last_plan_for_a = None,
       calls = [(Perplexity, essay_facts_prompt (ascii ''pollution'')),
                (GPT, essay_draft_prompt (ascii ''pollution'') (ascii ''FACTS'')),
                (Gemini, essay_checked_prompt (ascii ''DRAFT''))]\<rparr>"
  obtain r where run: "chat ?P ?req initial_state = (r, ?s')"
    by (simp add: chat_def chat_try_def handler_defs gemini_down_def initial_state_def)
  have bad: "\<exists>c \<in> set (new_calls initial_state ?s'). \<not> succeeded ?P c"
    by (simp add: trace_defs gemini_down_def initial_state_def)
  from provider_failure_aborts [OF run bad] run show ?thesis
    by (auto simp: trace_defs gemini_down_def initial_state_def)
qed

section \<open>What the prompts embed\<close>

lemma str_in_append_pre: "str_in k t \<Longrightarrow> str_in k (pre @ t)"
  unfolding str_in_iff by (metis append.assoc)

lemma str_in_here: "str_in k (k @ post)"
  using str_in_appendI [of k "[]" post] by simp

lemmas str_in_embedded = str_in_here str_in_append_pre

lemmas prompt_defs =
  plan_bg_prompt_def plan_ideas_prompt_def plan_plan_prompt_def
  report_outline_prompt_def report_final_prompt_def
  essay_facts_prompt_def essay_draft_prompt_def essay_checked_prompt_def essay_final_prompt_def
  ideas_raw_prompt_def ideas_refined_prompt_def ideas_final_prompt_def
  research_px_prompt_def research_final_prompt_def

lemma handle_mode_a_plan_embeds:
  assumes "handle_mode_a_plan P u s = (r, s')"
  shows "embeds_previous P u (new_calls s s') \<and> embeds_all_prior P [u] (new_calls s s')"
  using assms
  by (auto simp: handler_defs trace_defs prompt_defs str_in_embedded split: sum.splits)

lemma handle_mode_a_report_embeds:
  assumes "handle_mode_a_report P u X s = (r, s')"
  shows "embeds_previous P u (new_calls s s') \<and>
    embeds_all_prior P [u, X] (take 1 (new_calls s s'))"
  using assms
  by (auto simp: handler_defs trace_defs prompt_defs str_in_embedded split: sum.splits)

lemma handle_mode_b_essay_embeds:
  assumes "handle_mode_b_essay P u s = (r, s')"
  shows "embeds_previous P u (new_calls s s') \<and>
    embeds_all_prior P [u] (take 2 (new_calls s s'))"
  using assms
  by (auto simp: handler_defs trace_defs prompt_defs str_in_embedded split: sum.splits)

lemma handle_mode_c_ideas_embeds:
  assumes "handle_mode_c_ideas P u s = (r, s')"
  shows "embeds_previous P u (new_calls s s') \<and>
    embeds_all_prior P [u] (take 2 (new_calls s s'))"
  using assms
  by (auto simp: handler_defs trace_defs prompt_defs str_in_embedded split: sum.splits)

lemma handle_mode_d_research_embeds:
  assumes "handle_mode_d_research P u s = (r, s')"
  shows "embeds_previous P u (new_calls s s') \<and>
    embeds_all_prior P [u] (take 1 (new_calls s s'))"
  using assms
  by (auto simp: handler_defs trace_defs prompt_defs str_in_embedded split: sum.splits)

text \<open>
  Claim C5, as amended. In every pipeline each prompt after the first contains the output of
  the call just before it, and the first prompt contains the user's text (in the report
  pipeline also the stored plan); after a call that raises there is no further prompt.
  Every prompt of the plan pipeline, and the second prompt of the essay and of the ideas
  pipeline, contains the user's text and the outputs of all earlier calls. An output that is
  \<^verbatim>\<open>None\<close> is contained as the f-string formats it.
\<close>

theorem prompts_embed_previous_output:
  assumes "chat P req s = (r, s')"
  shows "embeds_previous P (user_input req) (new_calls s s') \<and>
    (mode req = A \<longrightarrow> \<not> is_report_request (user_input req) \<longrightarrow>
       embeds_all_prior P [user_input req] (new_calls s s')) \<and>
    (mode req = A \<longrightarrow> is_report_request (user_input req) \<longrightarrow>
       (\<forall>X. last_plan_for_a s = Some X \<longrightarrow>
          new_calls s s' \<noteq> [] \<and>
          embeds_all_prior P [user_input req, X] (take 1 (new_calls s s')))) \<and>
    (mode req = B \<or> mode req = C \<longrightarrow>
       embeds_all_prior P [user_input req] (take 2 (new_calls s s'))) \<and>
    (mode req = D \<longrightarrow>
       embeds_all_prior P [user_input req] (take 1 (new_calls s s')))"
proof -
  have "snd (chat_try P req s) = s'"
    using assms chat_snd [of P req s] by simp
  then obtain r0 where tr: "chat_try P req s = (r0, s')"
    by (cases "chat_try P req s") auto
  show ?thesis
  proof (cases "mode req")
    case A
    show ?thesis
    proof (cases "is_report_request (user_input req)")
      case True
      show ?thesis
      proof (cases "last_plan_for_a s")
        case None
        with A True tr show ?thesis by (simp add: chat_try_def)
      next
        case (Some X)
        with A True tr show ?thesis
          using handle_mode_a_report_embeds [of P "user_input req" X s r0 s']
            handle_mode_a_report_trace [of P "user_input req" X s r0 s']
          by (simp add: chat_try_def)
      qed
    next
      case False
      obtain r1 s1 where run: "handle_mode_a_plan P (user_input req) s = (r1, s1)"
        by (cases "handle_mode_a_plan P (user_input req) s")
      from handle_mode_a_plan_embeds [OF run] A False tr run show ?thesis
        by (cases r1) (auto simp: chat_try_def)
    qed
  next
    case B
    with tr show ?thesis
      using handle_mode_b_essay_embeds [of P "user_input req" s r0 s']
      by (simp add: chat_try_def)
  next
    case C
    with tr show ?thesis
      using handle_mode_c_ideas_embeds [of P "user_input req" s r0 s']
      by (simp add: chat_try_def)
  next
    case D
    with tr show ?thesis
      using handle_mode_d_research_embeds [of P "user_input req" s r0 s']
      by (simp add: chat_try_def)
  qed
qed

text \<open>
  Four runs with providers answering "FACTS" (Perplexity), "DRAFT" (GPT), "CHECKED" (Gemini),
  "FINAL" (Claude): the essay, ideas and research pipelines on the text "pollution", and the
  report pipeline on that text followed by a keyword, with the plan "PLAN_OUT" stored.
\<close>

lemma essay_run:
  "chat (fixed_providers (ascii ''FACTS'') (ascii ''DRAFT'') (ascii ''CHECKED'') (ascii ''FINAL''))
     \<lparr>mode = B, user_input = ascii ''pollution''\<rparr> initial_state =
     (Inr \<lparr>answer = ascii ''FINAL''\<rparr>,
      \<lparr>last_plan_for_a = None,
       calls = [(Perplexity, essay_facts_prompt (ascii ''pollution'')),
                (GPT, essay_draft_prompt (ascii ''pollution'') (ascii ''FACTS'')),
                (Gemini, essay_checked_prompt (ascii ''DRAFT'')),
                (Claude, essay_final_prompt (ascii ''CHECKED''))]\<rparr>)"
  by (simp add: chat_def chat_try_def handler_defs fixed_providers_def initial_state_def)

lemma ideas_run:
  "chat (fixed_providers (ascii ''FACTS'') (ascii ''DRAFT'') (ascii ''CHECKED'') (ascii ''FINAL''))
     \<lparr>mode = C, user_input = ascii ''pollution''\<rparr> initial_state =
     (Inr \<lparr>answer = ascii ''FINAL''\<rparr>,
      \<lparr>last_plan_for_a = None,
       calls = [(GPT, ideas_raw_prompt (ascii ''pollution'')),
                (Gemini, ideas_refined_prompt (ascii ''pollution'') (ascii ''DRAFT'')),
                (Claude, ideas_final_prompt (ascii ''CHECKED''))]\<rparr>)"
  by (simp add: chat_def chat_try_def handler_defs fixed_providers_def initial_state_def)

lemma research_run:
  "chat (fixed_providers (ascii ''FACTS'') (ascii ''DRAFT'') (ascii ''CHECKED'') (ascii ''FINAL''))
     \<lparr>mode = D, user_input = ascii ''pollution''\<rparr> initial_state =
     (Inr \<lparr>answer = ascii ''CHECKED''\<rparr>,
      \<lparr>last_plan_for_a = None,
       calls = [(Perplexity, research_px_prompt (ascii ''pollution'')),
                (Gemini, research_final_prompt (ascii ''FACTS''))]\<rparr>)"
  by (simp add: chat_def chat_try_def handler_defs fixed_providers_def initial_state_def)

lemma report_request_text:
  "is_report_request (ascii ''pollution '' @ [0xC791, 0xC131, 0xD574])"
  using is_report_request_def str_in_appendI [of "[0xC791, 0xC131, 0xD574]" "ascii ''pollution ''" "[]"]
  by (simp add: REPORT_KEYWORDS_def)

lemma report_run:
  "chat (fixed_providers (ascii ''FACTS'') (ascii ''DRAFT'') (ascii ''CHECKED'') (ascii ''FINAL''))
     \<lparr>mode = A, user_input = ascii ''pollution '' @ [0xC791, 0xC131, 0xD574]\<rparr>
     \<lparr>last_plan_for_a = Some (ascii ''PLAN_OUT''), calls = []\<rparr> =
     (Inr \<lparr>answer = ascii ''FINAL''\<rparr>,
      \<lparr>last_plan_for_a = Some (ascii ''PLAN_OUT''),
       calls = [(Gemini, report_outline_prompt (ascii ''PLAN_OUT'')
                   (ascii ''pollution '' @ [0xC791, 0xC131, 0xD574])),
                (Claude, report_final_prompt (ascii ''CHECKED''))]\<rparr>)"
  using report_request_text
  by (simp add: chat_def chat_try_def handler_defs fixed_providers_def)

text \<open>The templates of the later stages interpolate one variable each.\<close>

lemma essay_checked_prompt_lacks_input:
  "\<not> str_in (ascii ''pollution'') (essay_checked_prompt (ascii ''DRAFT''))"
  by (simp add: essay_checked_prompt_def essay_checked_prompt_lit0_def
      essay_checked_prompt_lit1_def ascii_def)

lemma essay_checked_prompt_lacks_facts:
  "\<not> str_in (ascii ''FACTS'') (essay_checked_prompt (ascii ''DRAFT''))"
  by (simp add: essay_checked_prompt_def essay_checked_prompt_lit0_def
      essay_checked_prompt_lit1_def ascii_def)

lemma essay_final_prompt_lacks_input:
  "\<not> str_in (ascii ''pollution'') (essay_final_prompt (ascii ''CHECKED''))"
  by (simp add: essay_final_prompt_def essay_final_prompt_lit0_def
      essay_final_prompt_lit1_def ascii_def)

lemma essay_final_prompt_lacks_facts:
  "\<not> str_in (ascii ''FACTS'') (essay_final_prompt (ascii ''CHECKED''))"
  by (simp add: essay_final_prompt_def essay_final_prompt_lit0_def
      essay_final_prompt_lit1_def ascii_def)

lemma essay_final_prompt_lacks_draft:
  "\<not> str_in (ascii ''DRAFT'') (essay_final_prompt (ascii ''CHECKED''))"
  by (simp add: essay_final_prompt_def essay_final_prompt_lit0_def
      essay_final_prompt_lit1_def ascii_def)

lemma ideas_final_prompt_lacks_input:
  "\<not> str_in (ascii ''pollution'') (ideas_final_prompt (ascii ''CHECKED''))"
  by (simp add: ideas_final_prompt_def ideas_final_prompt_lit0_def
      ideas_final_prompt_lit1_def ascii_def)

lemma ideas_final_prompt_lacks_raw_ideas:
  "\<not> str_in (ascii ''DRAFT'') (ideas_final_prompt (ascii ''CHECKED''))"
  by (simp add: ideas_final_prompt_def ideas_final_prompt_lit0_def
      ideas_final_prompt_lit1_def ascii_def)

lemma research_final_prompt_lacks_input:
  "\<not> str_in (ascii ''pollution'') (research_final_prompt (ascii ''FACTS''))"
  by (simp add: research_final_prompt_def research_final_prompt_lit0_def
      research_final_prompt_lit1_def ascii_def)

lemma report_final_prompt_lacks_input:
  "\<not> str_in (ascii ''pollution '' @ [0xC791, 0xC131, 0xD574])
       (report_final_prompt (ascii ''CHECKED''))"
  by (simp add: report_final_prompt_def report_final_prompt_lit0_def
      report_final_prompt_lit1_def ascii_def)

lemma report_final_prompt_lacks_plan:
  "\<not> str_in (ascii ''PLAN_OUT'') (report_final_prompt (ascii ''CHECKED''))"
  by (simp add: report_final_prompt_def report_final_prompt_lit0_def
      report_final_prompt_lit1_def ascii_def)

text \<open>
  Claim C5, as stated, fails in each of the four pipelines other than the plan pipeline: in
  these runs not every prompt contains the user's text and all earlier outputs. The prompts
  that lack the user's text are the third and fourth of the essay pipeline, the third of the
  ideas pipeline, the second of the research pipeline and the second of the report pipeline.
  Of the earlier outputs, the third prompt of the essay pipeline lacks the first, its fourth
  prompt lacks the first and the second, and the third prompt of the ideas pipeline lacks the
  first; the second prompt of the report pipeline lacks the stored plan.
\<close>

theorem later_prompts_lack_earlier_texts:
  "\<not> embeds_all_prior
      (fixed_providers (ascii ''FACTS'') (ascii ''DRAFT'') (ascii ''CHECKED'') (ascii ''FINAL''))
      [ascii ''pollution'']
      (new_calls initial_state
        (snd (chat (fixed_providers (ascii ''FACTS'') (ascii ''DRAFT'') (ascii ''CHECKED'') (ascii ''FINAL''))
           \<lparr>mode = B, user_input = ascii ''pollution''\<rparr> initial_state))) \<and>
   \<not> str_in (ascii ''pollution'') (essay_checked_prompt (ascii ''DRAFT'')) \<and>
   \<not> str_in (ascii ''FACTS'') (essay_checked_prompt (ascii ''DRAFT'')) \<and>
   \<not> str_in (ascii ''pollution'') (essay_final_prompt (ascii ''CHECKED'')) \<and>
   \<not> str_in (ascii ''FACTS'') (essay_final_prompt (ascii ''CHECKED'')) \<and>
   \<not> str_in (ascii ''DRAFT'') (essay_final_prompt (ascii ''CHECKED'')) \<and>
   \<not> embeds_all_prior
      (fixed_providers (ascii ''FACTS'') (ascii ''DRAFT'') (ascii ''CHECKED'') (ascii ''FINAL''))
      [ascii ''pollution'']
      (new_calls initial_state
        (snd (chat (fixed_providers (ascii ''FACTS'') (ascii ''DRAFT'') (ascii ''CHECKED'') (ascii ''FINAL''))
           \<lparr>mode = C, user_input = ascii ''pollution''\<rparr> initial_state))) \<and>
   \<not> str_in (ascii ''pollution'') (ideas_final_prompt (ascii ''CHECKED'')) \<and>
   \<not> str_in (ascii ''DRAFT'') (ideas_final_prompt (ascii ''CHECKED'')) \<and>
   \<not> embeds_all_prior
      (fixed_providers (ascii ''FACTS'') (ascii ''DRAFT'') (ascii ''CHECKED'') (ascii ''FINAL''))
      [ascii ''pollution'']
      (new_calls initial_state
        (snd (chat (fixed_providers (ascii ''FACTS'') (ascii ''DRAFT'') (ascii ''CHECKED'') (ascii ''FINAL''))
           \<lparr>mode = D, user_input = ascii ''pollution''\<rparr> initial_state))) \<and>
   \<not> str_in (ascii ''pollution'') (research_final_prompt (ascii ''FACTS'')) \<and>
   \<not> embeds_all_prior
      (fixed_providers (ascii ''FACTS'') (ascii ''DRAFT'') (ascii ''CHECKED'') (ascii ''FINAL''))
      [ascii ''pollution '' @ [0xC791, 0xC131, 0xD574]]
      (new_calls \<lparr>last_plan_for_a = Some (ascii ''PLAN_OUT''), calls = []\<rparr>
        (snd (chat (fixed_providers (ascii ''FACTS'') (ascii ''DRAFT'') (ascii ''CHECKED'') (ascii ''FINAL''))
           \<lparr>mode = A, user_input = ascii ''pollution '' @ [0xC791, 0xC131, 0xD574]\<rparr>
           \<lparr>last_plan_for_a = Some (ascii ''PLAN_OUT''), calls = []\<rparr>))) \<and>
   \<not> str_in (ascii ''pollution '' @ [0xC791, 0xC131, 0xD574])
       (report_final_prompt (ascii ''CHECKED'')) \<and>
   \<not> str_in (ascii ''PLAN_OUT'') (report_final_prompt (ascii ''CHECKED''))"
  unfolding essay_run ideas_run research_run report_run
  using essay_checked_prompt_lacks_input essay_checked_prompt_lacks_facts
    essay_final_prompt_lacks_input essay_final_prompt_lacks_facts essay_final_prompt_lacks_draft
    ideas_final_prompt_lacks_input ideas_final_prompt_lacks_raw_ideas
    research_final_prompt_lacks_input
    report_final_prompt_lacks_input report_final_prompt_lacks_plan
  by (simp add: new_calls_def initial_state_def respond_def fixed_providers_def format_value_def)

theorem prompts_embed_previous_output_witness:
  "embeds_previous
      (fixed_providers (ascii ''FACTS'') (ascii ''DRAFT'') (ascii ''CHECKED'') (ascii ''FINAL''))
      (ascii ''pollution'')
      [(Perplexity, essay_facts_prompt (ascii ''pollution'')),
       (GPT, essay_draft_prompt (ascii ''pollution'') (ascii ''FACTS'')),
       (Gemini, essay_checked_prompt (ascii ''DRAFT'')),
       (Claude, essay_final_prompt (ascii ''CHECKED''))] \<and>
   embeds_all_prior
      (fixed_providers (ascii ''FACTS'') (ascii ''DRAFT'') (ascii ''CHECKED'') (ascii ''FINAL''))
      [ascii ''pollution'']
      [(Perplexity, essay_facts_prompt (ascii ''pollution'')),
       (GPT, essay_draft_prompt (ascii ''pollution'') (ascii ''FACTS''))]"
  using prompts_embed_previous_output [OF essay_run]
  by (simp add: new_calls_def initial_state_def)

section \<open>The stored plan\<close>

text \<open>
  One request either keeps the stored plan or, in the plan branch of mode "A", replaces it
  by what \<^verbatim>\<open>handle_mode_a_plan\<close> returned, which is what the Gemini client returned: a
  text or \<^verbatim>\<open>None\<close>.
\<close>

lemma handle_mode_a_report_plan:
  "last_plan_for_a (snd (handle_mode_a_report P u X s)) = last_plan_for_a s"
  by (simp add: handler_defs split: sum.splits)

lemma chat_plan_step:
  "last_plan_for_a (snd (chat P req s)) = last_plan_for_a s \<or>
   (mode req = A \<and> \<not> is_report_request (user_input req) \<and>
    fst (handle_mode_a_plan P (user_input req) s) =
      Inr (last_plan_for_a (snd (chat P req s))))"
proof (cases "mode req = A")
  case False
  then show ?thesis
    using chat_try_frame [of req P s s] by (simp add: chat_snd)
next
  case modeA: True
  show ?thesis
  proof (cases "is_report_request (user_input req)")
    case True
    with modeA show ?thesis
      by (simp add: chat_snd chat_try_def handle_mode_a_report_plan split: option.splits)
  next
    case False
    obtain r1 s1 where run: "handle_mode_a_plan P (user_input req) s = (r1, s1)"
      by (cases "handle_mode_a_plan P (user_input req) s")
    with modeA False handle_mode_a_plan_trace [OF run] show ?thesis
      by (cases r1) (auto simp: chat_snd chat_try_def)
  qed
qed

text \<open>
  Claim C8 fails on the code. With the plan "X" stored, a request of mode "A" that is not a
  report request, served by providers whose Gemini client returns \<^verbatim>\<open>None\<close> for the plan
  prompt: line 670 stores \<^verbatim>\<open>None\<close>, then line 682 raises and the request ends in the
  failure of status 500. The store is empty afterwards.
\<close>

theorem stored_plan_emptied_by_missing_text:
  "\<not> is_report_request (ascii ''pollution'') \<and>
   chat gemini_silent \<lparr>mode = A, user_input = ascii ''pollution''\<rparr>
     \<lparr>last_plan_for_a = Some (ascii ''X''), calls = []\<rparr> =
    (Inl \<lparr>status_code = 500, detail = error_detail (response_error_text gemini_silent)\<rparr>,
     \<lparr>last_plan_for_a = None,
      calls = [(Perplexity, plan_bg_prompt (ascii ''pollution'')),
               (GPT, plan_ideas_prompt (ascii ''pollution'') (ascii ''BG'')),
               (Gemini, plan_plan_prompt (ascii ''pollution'') (ascii ''BG'') (ascii ''IDEAS''))]\<rparr>)"
proof -
  have no: "\<not> is_report_request (ascii ''pollution'')"
    by (simp add: is_report_request_def REPORT_KEYWORDS_def ascii_def)
  then show ?thesis
    by (simp add: chat_def chat_try_def handler_defs gemini_silent_def)
qed

section \<open>Modes outside the enumeration\<close>

text \<open>
  Claim C9. A request whose mode is none of "A", "B", "C", "D" fails with a validation error:
  the \<^verbatim>\<open>ChatRequest\<close> cannot be built, so \<^verbatim>\<open>chat\<close> is not run, no provider is called
  and the state is unchanged. For each of the four modes the request is built and the result
  is that of \<^verbatim>\<open>chat\<close>.
\<close>

theorem unlisted_mode_rejected:
  "(m \<notin> {ascii ''A'', ascii ''B'', ascii ''C'', ascii ''D''} \<longrightarrow>
      post_chat P m u s = (Inl (ValidationError m), s)) \<and>
   (m \<in> {ascii ''A'', ascii ''B'', ascii ''C'', ascii ''D''} \<longrightarrow>
      (\<exists>req. ChatRequest_validate m u = Inr req \<and> user_input req = u \<and>
         post_chat P m u s = (Inr (fst (chat P req s)), snd (chat P req s))))"
  by (auto simp: post_chat_def ChatRequest_validate_def ModeType_validate_def
      split: prod.splits)

theorem unlisted_mode_rejected_witness:
  "ascii ''E'' \<notin> {ascii ''A'', ascii ''B'', ascii ''C'', ascii ''D''} \<and>
   post_chat (fixed_providers (ascii ''FACTS'') (ascii ''DRAFT'') (ascii ''CHECKED'') (ascii ''FINAL''))
     (ascii ''E'') (ascii ''pollution'') initial_state =
     (Inl (ValidationError (ascii ''E'')), initial_state)"
proof -
  have out: "ascii ''E'' \<notin> {ascii ''A'', ascii ''B'', ascii ''C'', ascii ''D''}"
    by (simp add: ascii_def)
  with unlisted_mode_rejected [of "ascii ''E''"
      "fixed_providers (ascii ''FACTS'') (ascii ''DRAFT'') (ascii ''CHECKED'') (ascii ''FINAL'')"
      "ascii ''pollution''" initial_state]
  show ?thesis by blast
qed

end
